theory Spec2Isabelle
  imports Main "HOL-Library.Word"
begin

section \<open>The API Gateway v2 stage resource (internal/service/apigatewayv2/stage.go)\<close>

text \<open>
  A shallow embedding of the shape converters, of the two collection differs inside
  \<open>resourceStageUpdate\<close> and of the Read, Update, Delete and Import entry points of
  \<open>stage.go\<close>. \<open>resourceStageCreate\<close> and the schema table of \<open>ResourceStage\<close> are not
  embedded: no property below is about them.
\<close>

subsection \<open>Go values\<close>

text \<open>
  Go's \<open>int\<close> is taken at 64 bits (the amd64 and arm64 builds); \<open>int32(v)\<close> keeps the
  low 32 bits and \<open>int(w)\<close> on an \<open>int32\<close> extends the sign. A \<open>float64\<close> is only ever
  copied by this file, so it is carried as its IEEE-754 bit pattern; the zero value
  \<open>0.0\<close> is the pattern with no bit set.
\<close>

type_synonym go_int = "64 word"
type_synonym int32 = "32 word"
type_synonym float64 = "64 word"

text \<open>
  The dynamic values an \<open>interface{}\<close> holds in this file. \<open>VLoggingLevel\<close> is a value
  whose dynamic type is the SDK's named string type \<open>awstypes.LoggingLevel\<close>: it is not
  a \<open>string\<close> for a type assertion.
\<close>

datatype val =
    VNil
  | VBool bool
  | VString string
  | VInt go_int
  | VFloat float64
  | VLoggingLevel string

text \<open>
  \<open>map[string]interface{}\<close>. Indexing a Go map at a key it does not hold gives the nil
  interface, on which every comma-ok type assertion below answers \<open>ok = false\<close>.
\<close>

type_synonym cfg = "string \<rightharpoonup> val"

text \<open>The comma-ok assertions \<open>m[k].(bool)\<close>, \<open>.(string)\<close>, \<open>.(int)\<close>, \<open>.(float64)\<close>:
  \<open>Some v\<close> when \<open>ok\<close>.\<close>

fun asBool :: "val option \<Rightarrow> bool option" where
  "asBool (Some (VBool b)) = Some b"
| "asBool _ = None"

fun asString :: "val option \<Rightarrow> string option" where
  "asString (Some (VString s)) = Some s"
| "asString _ = None"

fun asInt :: "val option \<Rightarrow> go_int option" where
  "asInt (Some (VInt i)) = Some i"
| "asInt _ = None"

fun asFloat64 :: "val option \<Rightarrow> float64 option" where
  "asFloat64 (Some (VFloat f)) = Some f"
| "asFloat64 _ = None"

text \<open>\<open>aws.ToString\<close>, \<open>aws.ToBool\<close>, \<open>aws.ToInt32\<close>, \<open>aws.ToFloat64\<close>: the pointee, or the
  zero value for a nil pointer.\<close>

definition ToString :: "string option \<Rightarrow> string" where
  "ToString p = (case p of None \<Rightarrow> [] | Some s \<Rightarrow> s)"

definition ToBool :: "bool option \<Rightarrow> bool" where
  "ToBool p = (case p of None \<Rightarrow> False | Some b \<Rightarrow> b)"

definition ToInt32 :: "int32 option \<Rightarrow> int32" where
  "ToInt32 p = (case p of None \<Rightarrow> 0 | Some w \<Rightarrow> w)"

definition ToFloat64 :: "float64 option \<Rightarrow> float64" where
  "ToFloat64 p = (case p of None \<Rightarrow> 0 | Some f \<Rightarrow> f)"

subsection \<open>The SDK's records\<close>

text \<open>\<open>awstypes.AccessLogSettings\<close> and \<open>awstypes.RouteSettings\<close>; a pointer field is an
  option, \<open>LoggingLevel\<close> is a string-typed enum whose zero value is the empty string.\<close>

record AccessLogSettings =
  DestinationArn :: "string option"
  Format :: "string option"

record RouteSettings =
  DataTraceEnabled :: "bool option"
  DetailedMetricsEnabled :: "bool option"
  LoggingLevel :: string
  ThrottlingBurstLimit :: "int32 option"
  ThrottlingRateLimit :: "float64 option"

definition ProtocolTypeWebsocket :: string where
  "ProtocolTypeWebsocket = ''WEBSOCKET''"

definition ProtocolTypeHttp :: string where
  "ProtocolTypeHttp = ''HTTP''"

definition defaultStageName :: string where
  "defaultStageName = ''$default''"

subsection \<open>Shape converters\<close>

definition expandAccessLogSettings :: "cfg option list \<Rightarrow> AccessLogSettings" where
  "expandAccessLogSettings vSettings =
     (let settings = \<lparr>DestinationArn = None, Format = None\<rparr> in
      case vSettings of
        [] \<Rightarrow> settings
      | None # _ \<Rightarrow> settings
      | Some mSettings # _ \<Rightarrow>
          \<lparr>DestinationArn =
             (case asString (mSettings ''destination_arn'') of
                Some vDestinationArn \<Rightarrow>
                  if vDestinationArn \<noteq> [] then Some vDestinationArn else None
              | None \<Rightarrow> None),
           Format =
             (case asString (mSettings ''format'') of
                Some vFormat \<Rightarrow> if vFormat \<noteq> [] then Some vFormat else None
              | None \<Rightarrow> None)\<rparr>)"

definition flattenAccessLogSettings :: "AccessLogSettings option \<Rightarrow> cfg list" where
  "flattenAccessLogSettings settings =
     (case settings of
        None \<Rightarrow> []
      | Some s \<Rightarrow>
          [[''destination_arn'' \<mapsto> VString (ToString (DestinationArn s)),
            ''format'' \<mapsto> VString (ToString (Format s))]])"

text \<open>\<open>vSettings[0] == nil\<close> is the element \<open>None\<close>; otherwise the five guarded
  assignments are made on the map \<open>vSettings[0]\<close>.\<close>

definition expandDefaultRouteSettings :: "cfg option list \<Rightarrow> string \<Rightarrow> RouteSettings" where
  "expandDefaultRouteSettings vSettings protocolType =
     (let routeSettings =
            \<lparr>DataTraceEnabled = None, DetailedMetricsEnabled = None, LoggingLevel = [],
             ThrottlingBurstLimit = None, ThrottlingRateLimit = None\<rparr> in
      case vSettings of
        [] \<Rightarrow> routeSettings
      | None # _ \<Rightarrow> routeSettings
      | Some mSettings # _ \<Rightarrow>
          \<lparr>DataTraceEnabled =
             (case asBool (mSettings ''data_trace_enabled'') of
                Some vDataTraceEnabled \<Rightarrow>
                  if protocolType = ProtocolTypeWebsocket then Some vDataTraceEnabled else None
              | None \<Rightarrow> None),
           DetailedMetricsEnabled =
             (case asBool (mSettings ''detailed_metrics_enabled'') of
                Some vDetailedMetricsEnabled \<Rightarrow> Some vDetailedMetricsEnabled
              | None \<Rightarrow> None),
           LoggingLevel =
             (case asString (mSettings ''logging_level'') of
                Some vLoggingLevel \<Rightarrow>
                  if vLoggingLevel \<noteq> [] \<and> protocolType = ProtocolTypeWebsocket
                  then vLoggingLevel else []
              | None \<Rightarrow> []),
           ThrottlingBurstLimit =
             (case asInt (mSettings ''throttling_burst_limit'') of
                Some vThrottlingBurstLimit \<Rightarrow> Some (ucast vThrottlingBurstLimit)
              | None \<Rightarrow> None),
           ThrottlingRateLimit =
             (case asFloat64 (mSettings ''throttling_rate_limit'') of
                Some vThrottlingRateLimit \<Rightarrow> Some vThrottlingRateLimit
              | None \<Rightarrow> None)\<rparr>)"

definition flattenDefaultRouteSettings :: "RouteSettings option \<Rightarrow> cfg list" where
  "flattenDefaultRouteSettings routeSettings =
     (case routeSettings of
        None \<Rightarrow> []
      | Some rs \<Rightarrow>
          [[''data_trace_enabled'' \<mapsto> VBool (ToBool (DataTraceEnabled rs)),
            ''detailed_metrics_enabled'' \<mapsto> VBool (ToBool (DetailedMetricsEnabled rs)),
            ''logging_level'' \<mapsto> VString (LoggingLevel rs),
            ''throttling_burst_limit'' \<mapsto> VInt (scast (ToInt32 (ThrottlingBurstLimit rs))),
            ''throttling_rate_limit'' \<mapsto> VFloat (ToFloat64 (ThrottlingRateLimit rs))]])"

text \<open>The body of the loop of \<open>expandRouteSettings\<close> up to the store into the map: the
  \<open>RouteSettings\<close> built from one element \<open>v\<close>.\<close>

definition expandRouteSetting :: "cfg \<Rightarrow> string \<Rightarrow> RouteSettings" where
  "expandRouteSetting mSettings protocolType =
     \<lparr>DataTraceEnabled =
        (case asBool (mSettings ''data_trace_enabled'') of
           Some v \<Rightarrow> if protocolType = ProtocolTypeWebsocket then Some v else None
         | None \<Rightarrow> None),
      DetailedMetricsEnabled =
        (case asBool (mSettings ''detailed_metrics_enabled'') of
           Some v \<Rightarrow> Some v
         | None \<Rightarrow> None),
      LoggingLevel =
        (case asString (mSettings ''logging_level'') of
           Some v \<Rightarrow> if v \<noteq> [] \<and> protocolType = ProtocolTypeWebsocket then v else []
         | None \<Rightarrow> []),
      ThrottlingBurstLimit =
        (case asInt (mSettings ''throttling_burst_limit'') of
           Some v \<Rightarrow> Some (ucast v)
         | None \<Rightarrow> None),
      ThrottlingRateLimit =
        (case asFloat64 (mSettings ''throttling_rate_limit'') of
           Some v \<Rightarrow> Some v
         | None \<Rightarrow> None)\<rparr>"

text \<open>
  The loop of \<open>expandRouteSettings\<close>, with the map built so far as accumulator.
  \<open>mSettings["route_key"].(string)\<close> is the one-value assertion: it panics when the
  element holds no string there, and the result is then \<open>None\<close>.
\<close>

fun expandRouteSettings_loop ::
  "cfg list \<Rightarrow> string \<Rightarrow> (string \<rightharpoonup> RouteSettings) \<Rightarrow> (string \<rightharpoonup> RouteSettings) option" where
  "expandRouteSettings_loop [] protocolType settings = Some settings"
| "expandRouteSettings_loop (v # vs) protocolType settings =
     (case asString (v ''route_key'') of
        None \<Rightarrow> None
      | Some k \<Rightarrow>
          expandRouteSettings_loop vs protocolType
            (settings(k \<mapsto> expandRouteSetting v protocolType)))"

definition expandRouteSettings ::
  "cfg list \<Rightarrow> string \<Rightarrow> (string \<rightharpoonup> RouteSettings) option" where
  "expandRouteSettings vSettings protocolType =
     expandRouteSettings_loop vSettings protocolType Map.empty"

text \<open>
  \<open>flattenRouteSettings\<close> ranges over a Go map, in an order the runtime chooses. Its
  argument here is the map as the range visits it: the entries in that order, each key
  once.
\<close>

definition flattenRouteSetting :: "string \<Rightarrow> RouteSettings \<Rightarrow> cfg" where
  "flattenRouteSetting k routeSetting =
     [''data_trace_enabled'' \<mapsto> VBool (ToBool (DataTraceEnabled routeSetting)),
      ''detailed_metrics_enabled'' \<mapsto> VBool (ToBool (DetailedMetricsEnabled routeSetting)),
      ''logging_level'' \<mapsto> VLoggingLevel (LoggingLevel routeSetting),
      ''route_key'' \<mapsto> VString k,
      ''throttling_burst_limit'' \<mapsto> VInt (scast (ToInt32 (ThrottlingBurstLimit routeSetting))),
      ''throttling_rate_limit'' \<mapsto> VFloat (ToFloat64 (ThrottlingRateLimit routeSetting))]"

fun flattenRouteSettings :: "(string \<times> RouteSettings) list \<Rightarrow> cfg list" where
  "flattenRouteSettings [] = []"
| "flattenRouteSettings ((k, routeSetting) # settings) =
     flattenRouteSetting k routeSetting # flattenRouteSettings settings"

text \<open>A listing of a Go map in some range order.\<close>

definition ranges_over :: "(string \<times> 'a) list \<Rightarrow> (string \<rightharpoonup> 'a) \<Rightarrow> bool" where
  "ranges_over kvs m = (distinct (map fst kvs) \<and> map_of kvs = m)"

subsection \<open>The remote API\<close>

text \<open>
  An error of the SDK client. \<open>errs.IsA[*awstypes.NotFoundException](err)\<close> asks whether
  the error is the service's not-found exception; every other failure (another service
  exception, a transport error) is \<open>OtherError\<close>. The string is the error's message.
\<close>

datatype sdk_error = NotFoundException string | OtherError string

fun IsNotFound :: "sdk_error \<Rightarrow> bool" where
  "IsNotFound (NotFoundException _) = True"
| "IsNotFound (OtherError _) = False"

text \<open>The fields of the SDK's outputs and of \<open>UpdateStageInput\<close> that this file reads or
  writes. A nil map of the request is \<open>None\<close>. \<open>gs_RouteSettings\<close> is the response's map as
  \<open>flattenRouteSettings\<close> ranges over it.\<close>

record GetApiOutput =
  ProtocolType :: string

record GetStageOutput =
  gs_AccessLogSettings :: "AccessLogSettings option"
  gs_ApiGatewayManaged :: "bool option"
  gs_AutoDeploy :: "bool option"
  gs_ClientCertificateId :: "string option"
  gs_DefaultRouteSettings :: "RouteSettings option"
  gs_DeploymentId :: "string option"
  gs_Description :: "string option"
  gs_RouteSettings :: "(string \<times> RouteSettings) list"
  gs_StageName :: "string option"
  gs_StageVariables :: "string \<rightharpoonup> string"

record UpdateStageInput =
  us_ApiId :: "string option"
  us_StageName :: "string option"
  us_AccessLogSettings :: "AccessLogSettings option"
  us_AutoDeploy :: "bool option"
  us_ClientCertificateId :: "string option"
  us_DefaultRouteSettings :: "RouteSettings option"
  us_DeploymentId :: "string option"
  us_Description :: "string option"
  us_RouteSettings :: "(string \<rightharpoonup> RouteSettings) option"
  us_StageVariables :: "(string \<rightharpoonup> string) option"

text \<open>
  Every remote call an entry point makes is appended to a log, in the order made. The
  remote service is outside the program: each operation of the client answers from the
  calls made so far and its arguments, so that the same call may answer differently
  later.
\<close>

datatype call =
    GetApiCall string
  | GetStageCall string string
  | UpdateStageCall UpdateStageInput
  | DeleteStageCall string string
  | DeleteRouteSettingsCall string string string

record Client =
  GetApi :: "call list \<Rightarrow> string \<Rightarrow> sdk_error + GetApiOutput"
  GetStage :: "call list \<Rightarrow> string \<Rightarrow> string \<Rightarrow> sdk_error + GetStageOutput"
  UpdateStage :: "call list \<Rightarrow> UpdateStageInput \<Rightarrow> sdk_error option"
  DeleteStage :: "call list \<Rightarrow> string \<Rightarrow> string \<Rightarrow> sdk_error option"
  DeleteRouteSettings :: "call list \<Rightarrow> string \<Rightarrow> string \<Rightarrow> string \<Rightarrow> sdk_error option"

record AWSClient =
  Region :: string
  Partition :: string
  AccountID :: string

subsection \<open>The resource data\<close>

text \<open>
  The attributes of the schema (tags apart). \<open>route_settings\<close> is a \<open>schema.Set\<close>, kept as
  its \<open>List()\<close>: two sets are equal when they have the same elements, and an element is
  a whole configuration map (the set hashes every field of the element).
\<close>

record attrs =
  access_log_settings :: "cfg option list"
  api_id :: string
  arn :: string
  auto_deploy :: bool
  client_certificate_id :: string
  default_route_settings :: "cfg option list"
  deployment_id :: string
  description :: string
  execution_arn :: string
  invoke_url :: string
  name :: string
  route_settings :: "cfg list"
  stage_variables :: "string \<rightharpoonup> string"

text \<open>
  \<open>*schema.ResourceData\<close>: the identifier, the new-resource flag, the attributes of the
  prior state (\<open>d_old\<close>) and the attributes \<open>d.Get\<close> answers (\<open>d_new\<close>: the planned values,
  overwritten by \<open>d.Set\<close>). \<open>d.GetChange\<close> answers the pair of both; every \<open>GetChange\<close> and
  \<open>HasChange\<close> of Update comes before the first \<open>d.Set\<close>. \<open>d.Set\<close> is taken to succeed.
\<close>

record ResourceData =
  d_Id :: string
  d_IsNewResource :: bool
  d_old :: attrs
  d_new :: attrs

text \<open>The error diagnostics of \<open>sdkdiag.AppendErrorf\<close>, one constructor per message
  format, with the values formatted into it.\<close>

datatype diag =
    ErrReadingAPI string sdk_error
  | ErrReadingStage string sdk_error
  | ErrUpdatingStage string sdk_error
  | ErrDeletingRouteSettings string string sdk_error
  | ErrDeletingStage string sdk_error

text \<open>\<open>arn.ARN{...}.String()\<close> of the SDK.\<close>

definition ARN_String :: "string \<Rightarrow> string \<Rightarrow> string \<Rightarrow> string \<Rightarrow> string \<Rightarrow> string" where
  "ARN_String prt service region accountID resource =
     ''arn:'' @ prt @ '':'' @ service @ '':'' @ region @ '':'' @ accountID @ '':'' @ resource"

subsection \<open>Read\<close>

text \<open>The \<open>d.Set\<close> calls of \<open>resourceStageRead\<close> between the fetch of the stage and the
  fetch of the API.\<close>

text \<open>
  \<open>d.Set("route_settings", ...)\<close> writes every element through the schema, whose field
  \<open>logging_level\<close> is a \<open>TypeString\<close>: the \<open>awstypes.LoggingLevel\<close> that
  \<open>flattenRouteSettings\<close> put there is of string kind and is stored as a plain string.
\<close>

definition setRouteSetting :: "cfg \<Rightarrow> cfg" where
  "setRouteSetting m =
     (case m ''logging_level'' of
        Some (VLoggingLevel s) \<Rightarrow> m(''logging_level'' \<mapsto> VString s)
      | _ \<Rightarrow> m)"

definition readSetAttributes :: "AWSClient \<Rightarrow> string \<Rightarrow> GetStageOutput \<Rightarrow> attrs \<Rightarrow> attrs" where
  "readSetAttributes meta apiId resp a =
     (let stageName = ToString (gs_StageName resp);
          region = Region meta
      in a\<lparr>access_log_settings := map Some (flattenAccessLogSettings (gs_AccessLogSettings resp)),
           arn := ARN_String (Partition meta) ''apigateway'' region []
                    (''/apis/'' @ apiId @ ''/stages/'' @ stageName),
           auto_deploy := ToBool (gs_AutoDeploy resp),
           client_certificate_id := ToString (gs_ClientCertificateId resp),
           default_route_settings :=
             map Some (flattenDefaultRouteSettings (gs_DefaultRouteSettings resp)),
           deployment_id := ToString (gs_DeploymentId resp),
           description := ToString (gs_Description resp),
           execution_arn := ARN_String (Partition meta) ''execute-api'' region (AccountID meta)
                    (apiId @ ''/'' @ stageName),
           name := stageName,
           route_settings := map setRouteSetting (flattenRouteSettings (gs_RouteSettings resp)),
           stage_variables := gs_StageVariables resp\<rparr>)"

definition resourceStageRead ::
  "Client \<Rightarrow> AWSClient \<Rightarrow> ResourceData \<Rightarrow> call list \<Rightarrow> diag list \<times> ResourceData \<times> call list" where
  "resourceStageRead conn meta d log =
     (let apiId = api_id (d_new d);
          log1 = log @ [GetStageCall apiId (d_Id d)]
      in case GetStage conn log apiId (d_Id d) of
           Inl err \<Rightarrow>
             if IsNotFound err \<and> \<not> d_IsNewResource d then ([], d\<lparr>d_Id := []\<rparr>, log1)
             else ([ErrReadingStage (d_Id d) err], d, log1)
         | Inr resp \<Rightarrow>
             (let stageName = ToString (gs_StageName resp);
                  region = Region meta;
                  d1 = d\<lparr>d_new := readSetAttributes meta apiId resp (d_new d)\<rparr>;
                  log2 = log1 @ [GetApiCall apiId]
              in case GetApi conn log1 apiId of
                   Inl err \<Rightarrow> ([ErrReadingAPI apiId err], d1, log2)
                 | Inr apiOutput \<Rightarrow>
                     if ProtocolType apiOutput = ProtocolTypeWebsocket then
                       ([], d1\<lparr>d_new := (d_new d1)\<lparr>invoke_url :=
                               ''wss://'' @ apiId @ ''.execute-api.'' @ region
                                 @ ''.amazonaws.com/'' @ stageName\<rparr>\<rparr>, log2)
                     else if ProtocolType apiOutput = ProtocolTypeHttp then
                       (if stageName = defaultStageName then
                          ([], d1\<lparr>d_new := (d_new d1)\<lparr>invoke_url :=
                                  ''https://'' @ apiId @ ''.execute-api.'' @ region
                                    @ ''.amazonaws.com/''\<rparr>\<rparr>, log2)
                        else
                          ([], d1\<lparr>d_new := (d_new d1)\<lparr>invoke_url :=
                                  ''https://'' @ apiId @ ''.execute-api.'' @ region
                                    @ ''.amazonaws.com/'' @ stageName\<rparr>\<rparr>, log2))
                     else ([], d1, log2)))"

subsection \<open>Update\<close>

definition HasChanges :: "ResourceData \<Rightarrow> bool" where
  "HasChanges d =
     (access_log_settings (d_old d) \<noteq> access_log_settings (d_new d)
      \<or> auto_deploy (d_old d) \<noteq> auto_deploy (d_new d)
      \<or> client_certificate_id (d_old d) \<noteq> client_certificate_id (d_new d)
      \<or> default_route_settings (d_old d) \<noteq> default_route_settings (d_new d)
      \<or> deployment_id (d_old d) \<noteq> deployment_id (d_new d)
      \<or> description (d_old d) \<noteq> description (d_new d)
      \<or> set (route_settings (d_old d)) \<noteq> set (route_settings (d_new d))
      \<or> stage_variables (d_old d) \<noteq> stage_variables (d_new d))"

text \<open>The request with the six changed scalar and singleton fields.\<close>

definition updateStageInput :: "ResourceData \<Rightarrow> string \<Rightarrow> UpdateStageInput" where
  "updateStageInput d protocolType =
     \<lparr>us_ApiId = Some (api_id (d_new d)),
      us_StageName = Some (d_Id d),
      us_AccessLogSettings =
        (if access_log_settings (d_old d) \<noteq> access_log_settings (d_new d)
         then Some (expandAccessLogSettings (access_log_settings (d_new d))) else None),
      us_AutoDeploy =
        (if auto_deploy (d_old d) \<noteq> auto_deploy (d_new d)
         then Some (auto_deploy (d_new d)) else None),
      us_ClientCertificateId =
        (if client_certificate_id (d_old d) \<noteq> client_certificate_id (d_new d)
         then Some (client_certificate_id (d_new d)) else None),
      us_DefaultRouteSettings =
        (if default_route_settings (d_old d) \<noteq> default_route_settings (d_new d)
         then Some (expandDefaultRouteSettings (default_route_settings (d_new d)) protocolType)
         else None),
      us_DeploymentId =
        (if deployment_id (d_old d) \<noteq> deployment_id (d_new d)
         then Some (deployment_id (d_new d)) else None),
      us_Description =
        (if description (d_old d) \<noteq> description (d_new d)
         then Some (description (d_new d)) else None),
      us_RouteSettings = None,
      us_StageVariables = None\<rparr>"

text \<open>\<open>os.Difference(ns).List()\<close>: the elements of \<open>os\<close> that are not elements of \<open>ns\<close>.\<close>

definition Difference :: "cfg list \<Rightarrow> cfg list \<Rightarrow> cfg list" where
  "Difference os ns = filter (\<lambda>v. v \<notin> set ns) os"

text \<open>
  The loop over the difference: one \<open>DeleteRouteSettings\<close> call per element. A not-found
  answer continues, any other error returns its diagnostic. \<open>None\<close> is the panic of the
  one-value assertion \<open>["route_key"].(string)\<close>.
\<close>

fun deleteRouteSettings_loop ::
  "Client \<Rightarrow> string \<Rightarrow> string \<Rightarrow> cfg list \<Rightarrow> call list \<Rightarrow> (diag option \<times> call list) option" where
  "deleteRouteSettings_loop conn apiId stageName [] log = Some (None, log)"
| "deleteRouteSettings_loop conn apiId stageName (vRouteSetting # rest) log =
     (case asString (vRouteSetting ''route_key'') of
        None \<Rightarrow> None
      | Some routeKey \<Rightarrow>
          (let log1 = log @ [DeleteRouteSettingsCall apiId routeKey stageName] in
           case DeleteRouteSettings conn log apiId routeKey stageName of
             None \<Rightarrow> deleteRouteSettings_loop conn apiId stageName rest log1
           | Some err \<Rightarrow>
               if IsNotFound err then deleteRouteSettings_loop conn apiId stageName rest log1
               else Some (Some (ErrDeletingRouteSettings stageName routeKey err), log1)))"

text \<open>The branch \<open>if d.HasChange("route_settings")\<close> of \<open>resourceStageUpdate\<close>: the
  diagnostic of an early return if any, the request, the log.\<close>

definition updateRouteSettings ::
  "Client \<Rightarrow> ResourceData \<Rightarrow> string \<Rightarrow> UpdateStageInput \<Rightarrow> call list
     \<Rightarrow> (diag option \<times> UpdateStageInput \<times> call list) option" where
  "updateRouteSettings conn d protocolType req log =
     (if set (route_settings (d_old d)) \<noteq> set (route_settings (d_new d)) then
        (let os = route_settings (d_old d);
             ns = route_settings (d_new d)
         in case deleteRouteSettings_loop conn (api_id (d_new d)) (d_Id d) (Difference os ns) log of
              None \<Rightarrow> None
            | Some (Some e, log1) \<Rightarrow> Some (Some e, req, log1)
            | Some (None, log1) \<Rightarrow>
                (case expandRouteSettings ns protocolType of
                   None \<Rightarrow> None
                 | Some settings \<Rightarrow> Some (None, req\<lparr>us_RouteSettings := Some settings\<rparr>, log1)))
      else Some (None, req, log))"

text \<open>
  Modelled from the spec: \<open>flex.DiffStringValueMaps\<close> of \<open>internal/flex\<close>, which is not
  among the sources. After section 4.2 of the specification the first map holds every
  added or changed key with its new value, the second every removed key (a key of the
  old map that the new map lacks) with its old value, the third the keys that did not
  change.
\<close>

definition DiffStringValueMaps ::
  "(string \<rightharpoonup> string) \<Rightarrow> (string \<rightharpoonup> string)
     \<Rightarrow> (string \<rightharpoonup> string) \<times> (string \<rightharpoonup> string) \<times> (string \<rightharpoonup> string)" where
  "DiffStringValueMaps oldMap newMap =
     ((\<lambda>k. case newMap k of
             None \<Rightarrow> None
           | Some v \<Rightarrow> if oldMap k = Some v then None else Some v),
      (\<lambda>k. case oldMap k of
             None \<Rightarrow> None
           | Some v \<Rightarrow> if newMap k = None then Some v else None),
      (\<lambda>k. case oldMap k of
             None \<Rightarrow> None
           | Some v \<Rightarrow> if newMap k = Some v then Some v else None))"

text \<open>The two loops after the call: every key of \<open>del\<close> is set to the empty string, then
  every entry of \<open>add\<close> is stored into the same map.\<close>

definition mergeVariables ::
  "(string \<rightharpoonup> string) \<Rightarrow> (string \<rightharpoonup> string) \<Rightarrow> (string \<rightharpoonup> string)" where
  "mergeVariables add del = (\<lambda>k. if k \<in> dom del then Some [] else None) ++ add"

definition updateStageVariables :: "ResourceData \<Rightarrow> UpdateStageInput \<Rightarrow> UpdateStageInput" where
  "updateStageVariables d req =
     (if stage_variables (d_old d) \<noteq> stage_variables (d_new d) then
        (case DiffStringValueMaps (stage_variables (d_old d)) (stage_variables (d_new d)) of
           (add, del, _) \<Rightarrow> req\<lparr>us_StageVariables := Some (mergeVariables add del)\<rparr>)
      else req)"

definition resourceStageUpdate ::
  "Client \<Rightarrow> AWSClient \<Rightarrow> ResourceData \<Rightarrow> call list
     \<Rightarrow> (diag list \<times> ResourceData \<times> call list) option" where
  "resourceStageUpdate conn meta d log =
     (if HasChanges d then
        (let apiId = api_id (d_new d);
             log1 = log @ [GetApiCall apiId]
         in case GetApi conn log apiId of
              Inl err \<Rightarrow> Some ([ErrReadingAPI apiId err], d, log1)
            | Inr apiOutput \<Rightarrow>
                (let protocolType = ProtocolType apiOutput;
                     req = updateStageInput d protocolType
                 in case updateRouteSettings conn d protocolType req log1 of
                      None \<Rightarrow> None
                    | Some (Some e, _, log2) \<Rightarrow> Some ([e], d, log2)
                    | Some (None, req1, log2) \<Rightarrow>
                        (let req2 = updateStageVariables d req1;
                             log3 = log2 @ [UpdateStageCall req2]
                         in case UpdateStage conn log2 req2 of
                              Some err \<Rightarrow> Some ([ErrUpdatingStage (d_Id d) err], d, log3)
                            | None \<Rightarrow> Some (resourceStageRead conn meta d log3))))
      else Some (resourceStageRead conn meta d log))"

subsection \<open>Delete\<close>

definition resourceStageDelete ::
  "Client \<Rightarrow> ResourceData \<Rightarrow> call list \<Rightarrow> diag list \<times> ResourceData \<times> call list" where
  "resourceStageDelete conn d log =
     (let log1 = log @ [DeleteStageCall (api_id (d_new d)) (d_Id d)]
      in case DeleteStage conn log (api_id (d_new d)) (d_Id d) of
           None \<Rightarrow> ([], d, log1)
         | Some err \<Rightarrow>
             if IsNotFound err then ([], d, log1)
             else ([ErrDeletingStage (d_Id d) err], d, log1))"

subsection \<open>Import\<close>

text \<open>\<open>strings.Split(s, sep)\<close> for a separator of one byte: the pieces of \<open>s\<close> between the
  occurrences of the separator, one more piece than occurrences.\<close>

fun strings_Split :: "string \<Rightarrow> char \<Rightarrow> string list" where
  "strings_Split [] sep = [[]]"
| "strings_Split (c # s) sep =
     (if c = sep then [] # strings_Split s sep
      else (case strings_Split s sep of
              [] \<Rightarrow> [[c]]
            | p # ps \<Rightarrow> (c # p) # ps))"

datatype import_error =
    ErrWrongFormat string
  | ErrGetStage sdk_error
  | ErrQuickCreate string

text \<open>The returned slice and error, and the log.\<close>

definition resourceStageImport ::
  "Client \<Rightarrow> ResourceData \<Rightarrow> call list
     \<Rightarrow> (ResourceData list \<times> import_error option) \<times> call list" where
  "resourceStageImport conn d log =
     (let parts = strings_Split (d_Id d) CHR ''/'' in
      if length parts \<noteq> 2 then (([], Some (ErrWrongFormat (d_Id d))), log)
      else
        (let apiId = parts ! 0;
             stageName = parts ! 1;
             log1 = log @ [GetStageCall apiId stageName]
         in case GetStage conn log apiId stageName of
              Inl err \<Rightarrow> (([], Some (ErrGetStage err)), log1)
            | Inr resp \<Rightarrow>
                if ToBool (gs_ApiGatewayManaged resp)
                then (([], Some (ErrQuickCreate stageName)), log1)
                else (([d\<lparr>d_Id := stageName, d_new := (d_new d)\<lparr>api_id := apiId\<rparr>\<rparr>], None),
                      log1)))"

subsection \<open>Notions for the statements\<close>

text \<open>The route key of an element of \<open>route_settings\<close> (the empty string when it holds
  none).\<close>

definition routeKeyOf :: "cfg \<Rightarrow> string" where
  "routeKeyOf v = (case asString (v ''route_key'') of None \<Rightarrow> [] | Some k \<Rightarrow> k)"

text \<open>
  Concrete inputs for the examples: a stage \<open>prod\<close> of the API \<open>abc123\<close> in \<open>us-east-1\<close>
  whose prior and planned attributes agree, a response of \<open>GetStage\<close> that sets the stage
  name only, and a client whose operations answer the same at every call
  (\<open>UpdateStage\<close> succeeds; \<open>DeleteStage\<close> and \<open>DeleteRouteSettings\<close> answer \<open>del\<close>).
\<close>

abbreviation fixture_attrs :: attrs where
  "fixture_attrs \<equiv>
     \<lparr>access_log_settings = [], api_id = ''abc123'', arn = [], auto_deploy = False,
      client_certificate_id = [], default_route_settings = [], deployment_id = [],
      description = [], execution_arn = [], invoke_url = [], name = ''prod'',
      route_settings = [], stage_variables = Map.empty\<rparr>"

abbreviation fixture_data :: ResourceData where
  "fixture_data \<equiv>
     \<lparr>d_Id = ''prod'', d_IsNewResource = False, d_old = fixture_attrs, d_new = fixture_attrs\<rparr>"

abbreviation fixture_meta :: AWSClient where
  "fixture_meta \<equiv> \<lparr>Region = ''us-east-1'', Partition = ''aws'', AccountID = ''123456789012''\<rparr>"

abbreviation fixture_stage :: "string \<Rightarrow> GetStageOutput" where
  "fixture_stage stageName \<equiv>
     \<lparr>gs_AccessLogSettings = None, gs_ApiGatewayManaged = None, gs_AutoDeploy = None,
      gs_ClientCertificateId = None, gs_DefaultRouteSettings = None, gs_DeploymentId = None,
      gs_Description = None, gs_RouteSettings = [], gs_StageName = Some stageName,
      gs_StageVariables = Map.empty\<rparr>"

abbreviation fixture_client ::
  "(sdk_error + GetApiOutput) \<Rightarrow> (sdk_error + GetStageOutput) \<Rightarrow> sdk_error option \<Rightarrow> Client" where
  "fixture_client api stage del \<equiv>
     \<lparr>GetApi = (\<lambda>_ _. api), GetStage = (\<lambda>_ _ _. stage), UpdateStage = (\<lambda>_ _. None),
      DeleteStage = (\<lambda>_ _ _. del), DeleteRouteSettings = (\<lambda>_ _ _ _. del)\<rparr>"

abbreviation fixture_route :: "string \<Rightarrow> bool \<Rightarrow> cfg" where
  "fixture_route k dm \<equiv> [''route_key'' \<mapsto> VString k, ''detailed_metrics_enabled'' \<mapsto> VBool dm]"

abbreviation fixture_routes :: "cfg list \<Rightarrow> cfg list \<Rightarrow> ResourceData" where
  "fixture_routes os ns \<equiv>
     fixture_data\<lparr>d_old := fixture_attrs\<lparr>route_settings := os\<rparr>,
                  d_new := fixture_attrs\<lparr>route_settings := ns\<rparr>\<rparr>"

abbreviation fixture_variables :: "(string \<rightharpoonup> string) \<Rightarrow> (string \<rightharpoonup> string) \<Rightarrow> ResourceData" where
  "fixture_variables oldMap newMap \<equiv>
     fixture_data\<lparr>d_old := fixture_attrs\<lparr>stage_variables := oldMap\<rparr>,
                  d_new := fixture_attrs\<lparr>stage_variables := newMap\<rparr>\<rparr>"

section \<open>Properties\<close>

subsection \<open>Access-log settings\<close>

lemma map_neq_at: "m k \<noteq> n k \<Longrightarrow> m \<noteq> n"
  by auto

text \<open>
  C5. For every access-log configuration \<open>s\<close> that holds exactly the two fields
  \<open>destination_arn\<close> and \<open>format\<close>, both non-empty strings, flattening the expansion of
  the one-element list \<open>[s]\<close> gives \<open>[s]\<close> again.
\<close>

theorem accessLog_roundtrip:
  assumes "dom s = {''destination_arn'', ''format''}"
    and "s ''destination_arn'' = Some (VString dst)"
    and "s ''format'' = Some (VString fmt)"
    and "dst \<noteq> []"
    and "fmt \<noteq> []"
  shows "flattenAccessLogSettings (Some (expandAccessLogSettings [Some s])) = [s]"
proof -
  have e: "expandAccessLogSettings [Some s] = \<lparr>DestinationArn = Some dst, Format = Some fmt\<rparr>"
    using assms by (simp add: expandAccessLogSettings_def)
  have "[''destination_arn'' \<mapsto> VString dst, ''format'' \<mapsto> VString fmt] = s"
  proof (rule ext)
    fix k
    show "[''destination_arn'' \<mapsto> VString dst, ''format'' \<mapsto> VString fmt] k = s k"
    proof (cases "k \<in> dom s")
      case True
      then show ?thesis using assms by auto
    next
      case False
      then have "s k = None" by auto
      moreover have "k \<noteq> ''destination_arn''" "k \<noteq> ''format''"
        using False assms(1) by auto
      ultimately show ?thesis by simp
    qed
  qed
  then show ?thesis
    by (simp add: e flattenAccessLogSettings_def ToString_def)
qed

theorem accessLog_roundtrip_witness:
  "flattenAccessLogSettings (Some (expandAccessLogSettings
      [Some [''destination_arn'' \<mapsto> VString ''arn:aws:logs:us-east-1:1:log-group:g'',
             ''format'' \<mapsto> VString ''$context.requestId'']]))
   = [[''destination_arn'' \<mapsto> VString ''arn:aws:logs:us-east-1:1:log-group:g'',
       ''format'' \<mapsto> VString ''$context.requestId'']]"
  by (rule accessLog_roundtrip
        [where dst = "''arn:aws:logs:us-east-1:1:log-group:g''"
           and fmt = "''$context.requestId''"]) auto

subsection \<open>Per-route settings\<close>

lemma sint_ucast_32:
  fixes v :: "64 word"
  shows "sint (ucast v :: 32 word) = signed_take_bit 31 (sint v)"
proof -
  have "sint (ucast v :: 32 word) = signed_take_bit 31 (uint v)"
    by (simp add: signed_ucast_eq)
  also have "\<dots> = signed_take_bit 31 (signed_take_bit 63 (uint v))"
    by (simp add: signed_take_bit_signed_take_bit)
  also have "\<dots> = signed_take_bit 31 (sint v)"
    by (simp add: sint_uint)
  finally show ?thesis .
qed

lemma scast_ucast_32: 
  fixes v :: "64 word"
  assumes "- (2^31) \<le> sint v" "sint v < 2^31"
  shows "(scast (ucast v :: 32 word) :: 64 word) = v"
proof -
  have "signed_take_bit 31 (sint v) = sint v"
    using assms by (simp add: signed_take_bit_int_eq_self)
  then have "sint (ucast v :: 32 word) = sint v"
    by (simp add: sint_ucast_32)
  then have "(scast (ucast v :: 32 word) :: 64 word) = word_of_int (sint v)"
    by (simp add: scast_eq)
  then show ?thesis by simp
qed

lemma ranges_over_single: "ranges_over kvs [k \<mapsto> rs] \<Longrightarrow> kvs = [(k, rs)]"
proof -
  assume a: "ranges_over kvs [k \<mapsto> rs]"
  then have d: "distinct (map fst kvs)" and m: "map_of kvs = [k \<mapsto> rs]"
    by (simp_all add: ranges_over_def)
  have "fst ` set kvs = {k}" using m
    by (metis dom_map_of_conv_image_fst dom_eq_singleton_conv)
  have "kvs \<noteq> []" using \<open>fst ` set kvs = {k}\<close> by auto
  then obtain x xs where kx: "kvs = x # xs" by (cases kvs) auto
  have "fst x = k" using \<open>fst ` set kvs = {k}\<close> kx by auto
  have "xs = []"
  proof (cases xs)
    case Nil then show ?thesis .
  next
    case (Cons y ys)
    then have "fst y \<in> fst ` set kvs" using kx by auto
    then have "fst y = k" using \<open>fst ` set kvs = {k}\<close> by auto
    then show ?thesis using d kx Cons \<open>fst x = k\<close> by auto
  qed
  then show ?thesis using m kx \<open>fst x = k\<close> by (cases x) (auto dest: map_upd_eqD1)
qed

lemma scast_ucast_32_iff:
  fixes v :: "64 word"
  shows "((scast (ucast v :: 32 word) :: 64 word) = v) = (- (2 ^ 31) \<le> sint v \<and> sint v < 2 ^ 31)"
proof
  assume e: "(scast (ucast v :: 32 word) :: 64 word) = v"
  have "sint (scast (ucast v :: 32 word) :: 64 word) = sint (ucast v :: 32 word)"
    by (rule sint_up_scast) (simp add: is_up)
  then have s: "sint v = sint (ucast v :: 32 word)" using e by simp
  have "- (2 ^ 31) \<le> sint (ucast v :: 32 word)" using sint_ge [of "ucast v :: 32 word"] by simp
  moreover have "sint (ucast v :: 32 word) < 2 ^ 31" using sint_lt [of "ucast v :: 32 word"] by simp
  ultimately show "- (2 ^ 31) \<le> sint v \<and> sint v < 2 ^ 31" using s by simp
next
  assume "- (2 ^ 31) \<le> sint v \<and> sint v < 2 ^ 31"
  then show "(scast (ucast v :: 32 word) :: 64 word) = v" by (simp add: scast_ucast_32)
qed

text \<open>
  C2 (amended). For a protocol type other than \<open>WEBSOCKET\<close> and a route-settings
  configuration \<open>r\<close> with a boolean \<open>detailed_metrics_enabled\<close>, an integer
  \<open>throttling_burst_limit\<close> and a float \<open>throttling_rate_limit\<close>, flattening the expansion
  of \<open>r\<close> gives \<open>data_trace_enabled\<close> false and the empty \<open>logging_level\<close> (the zero value,
  not \<open>off\<close>), whatever \<open>r\<close> holds for them, through the default converters
  (\<open>expandDefaultRouteSettings\<close>, \<open>flattenDefaultRouteSettings\<close>) and through the per-route
  converters alike; there, expanding \<open>[r]\<close> gives the map with the one route key of \<open>r\<close>,
  and flattening any listing of that map gives the one entry. Detailed metrics and the
  rate limit (and the route key) are those of \<open>r\<close>. The burst limit has passed through
  \<open>int32\<close>: it is the sign extension of the low 32 bits of the one of \<open>r\<close>, which is the one
  of \<open>r\<close> exactly when that lies in the \<open>int32\<close> range.
\<close>

theorem routeSettings_gate_roundtrip:
  assumes "protocolType \<noteq> ProtocolTypeWebsocket"
    and "r ''detailed_metrics_enabled'' = Some (VBool dm)"
    and "r ''throttling_burst_limit'' = Some (VInt bl)"
    and "r ''throttling_rate_limit'' = Some (VFloat rl)"
  shows "flattenDefaultRouteSettings (Some (expandDefaultRouteSettings [Some r] protocolType)) =
           [[''data_trace_enabled'' \<mapsto> VBool False,
             ''detailed_metrics_enabled'' \<mapsto> VBool dm,
             ''logging_level'' \<mapsto> VString [],
             ''throttling_burst_limit'' \<mapsto> VInt (scast (ucast bl :: int32)),
             ''throttling_rate_limit'' \<mapsto> VFloat rl]]
       \<and> flattenRouteSetting k (expandRouteSetting r protocolType) =
           [''data_trace_enabled'' \<mapsto> VBool False,
            ''detailed_metrics_enabled'' \<mapsto> VBool dm,
            ''logging_level'' \<mapsto> VLoggingLevel [],
            ''route_key'' \<mapsto> VString k,
            ''throttling_burst_limit'' \<mapsto> VInt (scast (ucast bl :: int32)),
            ''throttling_rate_limit'' \<mapsto> VFloat rl]
       \<and> (r ''route_key'' = Some (VString k) \<longrightarrow>
            expandRouteSettings [r] protocolType = Some [k \<mapsto> expandRouteSetting r protocolType])
       \<and> (ranges_over kvs [k \<mapsto> expandRouteSetting r protocolType] \<longrightarrow>
            flattenRouteSettings kvs = [flattenRouteSetting k (expandRouteSetting r protocolType)])
       \<and> (((scast (ucast bl :: int32) :: go_int) = bl)
            = (- (2 ^ 31) \<le> sint bl \<and> sint bl < 2 ^ 31))"
proof -
  have 0: "expandDefaultRouteSettings [Some r] protocolType =
      \<lparr>DataTraceEnabled = None, DetailedMetricsEnabled = Some dm, LoggingLevel = [],
       ThrottlingBurstLimit = Some (ucast bl), ThrottlingRateLimit = Some rl\<rparr>"
    using assms
    by (cases "asBool (r ''data_trace_enabled'')"; cases "asString (r ''logging_level'')")
       (simp_all add: expandDefaultRouteSettings_def)
  have 1: "flattenDefaultRouteSettings (Some (expandDefaultRouteSettings [Some r] protocolType)) =
           [[''data_trace_enabled'' \<mapsto> VBool False,
             ''detailed_metrics_enabled'' \<mapsto> VBool dm,
             ''logging_level'' \<mapsto> VString [],
             ''throttling_burst_limit'' \<mapsto> VInt (scast (ucast bl :: int32)),
             ''throttling_rate_limit'' \<mapsto> VFloat rl]]"
    by (simp add: 0 flattenDefaultRouteSettings_def ToBool_def ToInt32_def ToFloat64_def)
  have 2: "expandRouteSetting r protocolType =
      \<lparr>DataTraceEnabled = None, DetailedMetricsEnabled = Some dm, LoggingLevel = [],
       ThrottlingBurstLimit = Some (ucast bl), ThrottlingRateLimit = Some rl\<rparr>"
    using assms
    by (cases "asBool (r ''data_trace_enabled'')"; cases "asString (r ''logging_level'')")
       (simp_all add: expandRouteSetting_def)
  have 3: "flattenRouteSetting k (expandRouteSetting r protocolType) =
           [''data_trace_enabled'' \<mapsto> VBool False,
            ''detailed_metrics_enabled'' \<mapsto> VBool dm,
            ''logging_level'' \<mapsto> VLoggingLevel [],
            ''route_key'' \<mapsto> VString k,
            ''throttling_burst_limit'' \<mapsto> VInt (scast (ucast bl :: int32)),
            ''throttling_rate_limit'' \<mapsto> VFloat rl]"
    by (simp add: 2 flattenRouteSetting_def ToBool_def ToInt32_def ToFloat64_def)
  have 4: "r ''route_key'' = Some (VString k) \<longrightarrow>
            expandRouteSettings [r] protocolType = Some [k \<mapsto> expandRouteSetting r protocolType]"
    by (simp add: expandRouteSettings_def)
  have 5: "ranges_over kvs [k \<mapsto> expandRouteSetting r protocolType] \<longrightarrow>
            flattenRouteSettings kvs = [flattenRouteSetting k (expandRouteSetting r protocolType)]"
  proof
    assume "ranges_over kvs [k \<mapsto> expandRouteSetting r protocolType]"
    from ranges_over_single [OF this] show
      "flattenRouteSettings kvs = [flattenRouteSetting k (expandRouteSetting r protocolType)]"
      by simp
  qed
  note 6 = scast_ucast_32_iff [of bl]
  show ?thesis
    by (intro conjI) (rule 1 3 4 5 6)+
qed

theorem routeSettings_gate_roundtrip_witness:
  "flattenDefaultRouteSettings (Some (expandDefaultRouteSettings
       [Some [''data_trace_enabled'' \<mapsto> VBool True, ''detailed_metrics_enabled'' \<mapsto> VBool True,
          ''logging_level'' \<mapsto> VString ''ERROR'',
          ''throttling_burst_limit'' \<mapsto> VInt 5000, ''throttling_rate_limit'' \<mapsto> VFloat 7]]
       ProtocolTypeHttp))
   = [[''data_trace_enabled'' \<mapsto> VBool False,
       ''detailed_metrics_enabled'' \<mapsto> VBool True,
       ''logging_level'' \<mapsto> VString [],
       ''throttling_burst_limit'' \<mapsto> VInt 5000,
       ''throttling_rate_limit'' \<mapsto> VFloat 7]]
   \<and> flattenRouteSettings
     [(''GET /pets'',
       expandRouteSetting
         [''data_trace_enabled'' \<mapsto> VBool True, ''detailed_metrics_enabled'' \<mapsto> VBool True,
          ''logging_level'' \<mapsto> VString ''ERROR'', ''route_key'' \<mapsto> VString ''GET /pets'',
          ''throttling_burst_limit'' \<mapsto> VInt 5000, ''throttling_rate_limit'' \<mapsto> VFloat 7]
         ProtocolTypeHttp)]
   = [[''data_trace_enabled'' \<mapsto> VBool False,
       ''detailed_metrics_enabled'' \<mapsto> VBool True,
       ''logging_level'' \<mapsto> VLoggingLevel [],
       ''route_key'' \<mapsto> VString ''GET /pets'',
       ''throttling_burst_limit'' \<mapsto> VInt 5000,
       ''throttling_rate_limit'' \<mapsto> VFloat 7]]"
proof -
  let ?dflt = "[''data_trace_enabled'' \<mapsto> VBool True, ''detailed_metrics_enabled'' \<mapsto> VBool True,
          ''logging_level'' \<mapsto> VString ''ERROR'',
          ''throttling_burst_limit'' \<mapsto> VInt 5000, ''throttling_rate_limit'' \<mapsto> VFloat 7]"
  let ?r = "[''data_trace_enabled'' \<mapsto> VBool True, ''detailed_metrics_enabled'' \<mapsto> VBool True,
          ''logging_level'' \<mapsto> VString ''ERROR'', ''route_key'' \<mapsto> VString ''GET /pets'',
          ''throttling_burst_limit'' \<mapsto> VInt 5000, ''throttling_rate_limit'' \<mapsto> VFloat 7]"
  have h1: "ProtocolTypeHttp \<noteq> ProtocolTypeWebsocket"
    by (simp add: ProtocolTypeHttp_def ProtocolTypeWebsocket_def)
  have a3: "?dflt ''detailed_metrics_enabled'' = Some (VBool True)" by simp
  have a4: "?dflt ''throttling_burst_limit'' = Some (VInt 5000)" by simp
  have a5: "?dflt ''throttling_rate_limit'' = Some (VFloat 7)" by simp
  have h3: "?r ''detailed_metrics_enabled'' = Some (VBool True)" by simp
  have h4: "?r ''throttling_burst_limit'' = Some (VInt 5000)" by simp
  have h5: "?r ''throttling_rate_limit'' = Some (VFloat 7)" by simp
  have h6: "ranges_over [(''GET /pets'', expandRouteSetting ?r ProtocolTypeHttp)]
              [''GET /pets'' \<mapsto> expandRouteSetting ?r ProtocolTypeHttp]"
    by (simp add: ranges_over_def)
  have s: "(scast (ucast (5000 :: go_int) :: int32) :: go_int) = 5000" by simp
  note d = conjunct1 [OF routeSettings_gate_roundtrip [OF h1 a3 a4 a5]]
  note t = routeSettings_gate_roundtrip [OF h1 h3 h4 h5,
             of "''GET /pets''" "[(''GET /pets'', expandRouteSetting ?r ProtocolTypeHttp)]"]
  note t2 = conjunct1 [OF conjunct2 [OF t]]
  note t4 = mp [OF conjunct1 [OF conjunct2 [OF conjunct2 [OF conjunct2 [OF t]]]] h6]
  have p1: "flattenDefaultRouteSettings (Some (expandDefaultRouteSettings [Some ?dflt] ProtocolTypeHttp))
   = [[''data_trace_enabled'' \<mapsto> VBool False,
       ''detailed_metrics_enabled'' \<mapsto> VBool True,
       ''logging_level'' \<mapsto> VString [],
       ''throttling_burst_limit'' \<mapsto> VInt 5000,
       ''throttling_rate_limit'' \<mapsto> VFloat 7]]"
    using d by (simp only: s)
  have p2: "flattenRouteSettings [(''GET /pets'', expandRouteSetting ?r ProtocolTypeHttp)]
   = [[''data_trace_enabled'' \<mapsto> VBool False,
       ''detailed_metrics_enabled'' \<mapsto> VBool True,
       ''logging_level'' \<mapsto> VLoggingLevel [],
       ''route_key'' \<mapsto> VString ''GET /pets'',
       ''throttling_burst_limit'' \<mapsto> VInt 5000,
       ''throttling_rate_limit'' \<mapsto> VFloat 7]]"
    using t4 t2 by (simp only: s)
  from p1 p2 show ?thesis by (rule conjI)
qed

text \<open>
  C2 as stated fails: under \<open>HTTP\<close> the configuration with logging level \<open>ERROR\<close> and
  burst limit \<open>2^32\<close> flattens, through either pair of converters, to the empty logging
  level, which is not \<open>off\<close>, and to the burst limit \<open>0\<close>.
\<close>

theorem routeSettings_gate_counterexample:
  "expandRouteSettings
     [[''data_trace_enabled'' \<mapsto> VBool True, ''detailed_metrics_enabled'' \<mapsto> VBool True,
       ''logging_level'' \<mapsto> VString ''ERROR'', ''route_key'' \<mapsto> VString ''GET /pets'',
       ''throttling_burst_limit'' \<mapsto> VInt 4294967296, ''throttling_rate_limit'' \<mapsto> VFloat 7]]
     ProtocolTypeHttp
   = Some [''GET /pets'' \<mapsto>
        \<lparr>DataTraceEnabled = None, DetailedMetricsEnabled = Some True, LoggingLevel = [],
         ThrottlingBurstLimit = Some 0, ThrottlingRateLimit = Some 7\<rparr>]
   \<and> flattenRouteSettings
        [(''GET /pets'',
          \<lparr>DataTraceEnabled = None, DetailedMetricsEnabled = Some True, LoggingLevel = [],
           ThrottlingBurstLimit = Some 0, ThrottlingRateLimit = Some 7\<rparr>)]
      = [[''data_trace_enabled'' \<mapsto> VBool False,
          ''detailed_metrics_enabled'' \<mapsto> VBool True,
          ''logging_level'' \<mapsto> VLoggingLevel [],
          ''route_key'' \<mapsto> VString ''GET /pets'',
          ''throttling_burst_limit'' \<mapsto> VInt 0,
          ''throttling_rate_limit'' \<mapsto> VFloat 7]]
   \<and> flattenDefaultRouteSettings (Some (expandDefaultRouteSettings
        [Some [''data_trace_enabled'' \<mapsto> VBool True, ''detailed_metrics_enabled'' \<mapsto> VBool True,
           ''logging_level'' \<mapsto> VString ''ERROR'',
           ''throttling_burst_limit'' \<mapsto> VInt 4294967296, ''throttling_rate_limit'' \<mapsto> VFloat 7]]
        ProtocolTypeHttp))
      = [[''data_trace_enabled'' \<mapsto> VBool False,
          ''detailed_metrics_enabled'' \<mapsto> VBool True,
          ''logging_level'' \<mapsto> VString [],
          ''throttling_burst_limit'' \<mapsto> VInt 0,
          ''throttling_rate_limit'' \<mapsto> VFloat 7]]
   \<and> VLoggingLevel [] \<noteq> VLoggingLevel ''off''
   \<and> VLoggingLevel [] \<noteq> VLoggingLevel ''OFF''
   \<and> VString [] \<noteq> VString ''off''
   \<and> VString [] \<noteq> VString ''OFF''
   \<and> VInt 0 \<noteq> VInt 4294967296"
proof -
  have z: "(4294967296 :: int32) = 0" by simp
  show ?thesis
  by (simp add: z expandRouteSettings_def expandRouteSetting_def flattenRouteSetting_def
        expandDefaultRouteSettings_def flattenDefaultRouteSettings_def
        ProtocolTypeHttp_def ProtocolTypeWebsocket_def ToBool_def ToInt32_def ToFloat64_def)
qed

subsection \<open>Duplicate route keys\<close>

lemma expandRouteSettings_loop_result:
  "\<forall>v \<in> set vs. asString (v ''route_key'') \<noteq> None \<Longrightarrow>
   \<exists>m. expandRouteSettings_loop vs protocolType acc = Some m \<and>
     (\<forall>k. m k =
        (if \<exists>v \<in> set vs. asString (v ''route_key'') = Some k
         then Some (expandRouteSetting
                (last (filter (\<lambda>v. asString (v ''route_key'') = Some k) vs)) protocolType)
         else acc k))"
proof (induction vs arbitrary: acc)
  case Nil
  then show ?case by simp
next
  case (Cons v vs)
  then obtain k0 where k0: "asString (v ''route_key'') = Some k0" by auto
  from Cons.prems have "\<forall>v \<in> set vs. asString (v ''route_key'') \<noteq> None" by simp
  from Cons.IH [OF this, of "acc(k0 \<mapsto> expandRouteSetting v protocolType)"]
  obtain m where m: "expandRouteSettings_loop vs protocolType (acc(k0 \<mapsto> expandRouteSetting v protocolType)) = Some m"
    and mk: "\<And>k. m k =
        (if \<exists>v \<in> set vs. asString (v ''route_key'') = Some k
         then Some (expandRouteSetting
                (last (filter (\<lambda>v. asString (v ''route_key'') = Some k) vs)) protocolType)
         else (acc(k0 \<mapsto> expandRouteSetting v protocolType)) k)"
    by blast
  have "expandRouteSettings_loop (v # vs) protocolType acc = Some m"
    using k0 m by simp
  moreover have "m k =
        (if \<exists>u \<in> set (v # vs). asString (u ''route_key'') = Some k
         then Some (expandRouteSetting
                (last (filter (\<lambda>v. asString (v ''route_key'') = Some k) (v # vs))) protocolType)
         else acc k)" for k
    using mk [of k] k0 by (auto simp: filter_empty_conv)
  ultimately show ?case by blast
qed


text \<open>
  C10. When every element of the input holds a string route key (otherwise the
  expander panics), \<open>expandRouteSettings\<close> returns a map, with no error for a route key
  that occurs more than once; the map's entry at a route key \<open>k\<close> of the input is the
  expansion of the last element of the input whose route key is \<open>k\<close>.
\<close>

theorem expandRouteSettings_last_wins:
  assumes "\<forall>v \<in> set vSettings. asString (v ''route_key'') \<noteq> None"
    and "u \<in> set vSettings"
    and "asString (u ''route_key'') = Some k"
  shows "\<exists>m. expandRouteSettings vSettings protocolType = Some m \<and>
           m k = Some (expandRouteSetting
                   (last (filter (\<lambda>v. asString (v ''route_key'') = Some k) vSettings))
                   protocolType)"
proof -
  from expandRouteSettings_loop_result [OF assms(1), of protocolType Map.empty]
  obtain m where "expandRouteSettings_loop vSettings protocolType Map.empty = Some m"
    and "\<And>k. m k =
        (if \<exists>v \<in> set vSettings. asString (v ''route_key'') = Some k
         then Some (expandRouteSetting
                (last (filter (\<lambda>v. asString (v ''route_key'') = Some k) vSettings)) protocolType)
         else Map.empty k)"
    by blast
  then show ?thesis using assms(2,3) by (auto simp: expandRouteSettings_def)
qed

theorem expandRouteSettings_last_wins_witness:
  "\<exists>m. expandRouteSettings
         [[''route_key'' \<mapsto> VString ''GET /pets'', ''detailed_metrics_enabled'' \<mapsto> VBool False],
          [''route_key'' \<mapsto> VString ''POST /pets'', ''detailed_metrics_enabled'' \<mapsto> VBool False],
          [''route_key'' \<mapsto> VString ''GET /pets'', ''detailed_metrics_enabled'' \<mapsto> VBool True]]
         ProtocolTypeHttp = Some m
     \<and> m ''GET /pets'' =
         Some \<lparr>DataTraceEnabled = None, DetailedMetricsEnabled = Some True, LoggingLevel = [],
           ThrottlingBurstLimit = None, ThrottlingRateLimit = None\<rparr>"
  using expandRouteSettings_last_wins
    [of "[[''route_key'' \<mapsto> VString ''GET /pets'', ''detailed_metrics_enabled'' \<mapsto> VBool False],
          [''route_key'' \<mapsto> VString ''POST /pets'', ''detailed_metrics_enabled'' \<mapsto> VBool False],
          [''route_key'' \<mapsto> VString ''GET /pets'', ''detailed_metrics_enabled'' \<mapsto> VBool True]]"
        "[''route_key'' \<mapsto> VString ''GET /pets'', ''detailed_metrics_enabled'' \<mapsto> VBool True]"
        "''GET /pets''" ProtocolTypeHttp]
  by (simp add: expandRouteSetting_def ProtocolTypeHttp_def ProtocolTypeWebsocket_def)

subsection \<open>The route-override differ\<close>

lemma deleteRouteSettings_loop_prefix:
  assumes "\<forall>v \<in> set vs. asString (v ''route_key'') \<noteq> None"
  shows "\<exists>n e. n \<le> length vs
         \<and> deleteRouteSettings_loop conn apiId stageName vs log =
             Some (e, log @ map (\<lambda>v. DeleteRouteSettingsCall apiId (routeKeyOf v) stageName)
                            (take n vs))
         \<and> (e = None \<longrightarrow> n = length vs)
         \<and> (\<forall>dg. e = Some dg \<longrightarrow>
               0 < n
               \<and> (\<exists>err. \<not> IsNotFound err
                    \<and> DeleteRouteSettings conn
                         (log @ map (\<lambda>v. DeleteRouteSettingsCall apiId (routeKeyOf v) stageName)
                                  (take (n - 1) vs))
                         apiId (routeKeyOf (vs ! (n - 1))) stageName = Some err
                    \<and> dg = ErrDeletingRouteSettings stageName (routeKeyOf (vs ! (n - 1))) err))
         \<and> (\<forall>i. i < n \<and> (e \<noteq> None \<longrightarrow> Suc i < n) \<longrightarrow>
               (case DeleteRouteSettings conn
                       (log @ map (\<lambda>v. DeleteRouteSettingsCall apiId (routeKeyOf v) stageName)
                                (take i vs))
                       apiId (routeKeyOf (vs ! i)) stageName of
                  None \<Rightarrow> True | Some er \<Rightarrow> IsNotFound er))"
  using assms
proof (induction vs arbitrary: log)
  case Nil
  then show ?case by simp
next
  case (Cons v vs)
  let ?f = "\<lambda>v. DeleteRouteSettingsCall apiId (routeKeyOf v) stageName"
  from Cons.prems obtain k where k: "asString (v ''route_key'') = Some k" by auto
  then have rk: "routeKeyOf v = k" by (simp add: routeKeyOf_def)
  have keys: "\<forall>v \<in> set vs. asString (v ''route_key'') \<noteq> None" using Cons.prems by simp
  show ?case
  proof (cases "\<exists>err. DeleteRouteSettings conn log apiId k stageName = Some err \<and> \<not> IsNotFound err")
    case True
    then obtain err where err: "DeleteRouteSettings conn log apiId k stageName = Some err"
      and nf: "\<not> IsNotFound err" by blast
    have "deleteRouteSettings_loop conn apiId stageName (v # vs) log =
            Some (Some (ErrDeletingRouteSettings stageName k err), log @ [?f v])"
      using k err nf by (simp add: rk Let_def)
    then show ?thesis
      using err nf rk
      by (intro exI [of _ "Suc 0"] exI [of _ "Some (ErrDeletingRouteSettings stageName k err)"])
         simp
  next
    case False
    then have step: "deleteRouteSettings_loop conn apiId stageName (v # vs) log =
            deleteRouteSettings_loop conn apiId stageName vs (log @ [?f v])"
      using k by (auto simp: rk Let_def split: option.splits)
    from Cons.IH [OF keys, of "log @ [?f v]"]
    obtain n e where n: "n \<le> length vs"
      and r: "deleteRouteSettings_loop conn apiId stageName vs (log @ [?f v]) =
               Some (e, (log @ [?f v]) @ map ?f (take n vs))"
      and e0: "e = None \<longrightarrow> n = length vs"
      and e1: "\<forall>dg. e = Some dg \<longrightarrow>
               0 < n
               \<and> (\<exists>err. \<not> IsNotFound err
                    \<and> DeleteRouteSettings conn ((log @ [?f v]) @ map ?f (take (n - 1) vs))
                         apiId (routeKeyOf (vs ! (n - 1))) stageName = Some err
                    \<and> dg = ErrDeletingRouteSettings stageName (routeKeyOf (vs ! (n - 1))) err)"
      and e2: "\<forall>i. i < n \<and> (e \<noteq> None \<longrightarrow> Suc i < n) \<longrightarrow>
               (case DeleteRouteSettings conn ((log @ [?f v]) @ map ?f (take i vs))
                       apiId (routeKeyOf (vs ! i)) stageName of
                  None \<Rightarrow> True | Some er \<Rightarrow> IsNotFound er)"
      by blast
    have a: "deleteRouteSettings_loop conn apiId stageName (v # vs) log =
             Some (e, log @ map ?f (take (Suc n) (v # vs)))"
      using step r by simp
    have b: "\<forall>dg. e = Some dg \<longrightarrow>
               0 < Suc n
               \<and> (\<exists>err. \<not> IsNotFound err
                    \<and> DeleteRouteSettings conn (log @ map ?f (take (Suc n - 1) (v # vs)))
                         apiId (routeKeyOf ((v # vs) ! (Suc n - 1))) stageName = Some err
                    \<and> dg = ErrDeletingRouteSettings stageName
                            (routeKeyOf ((v # vs) ! (Suc n - 1))) err)"
    proof (intro allI impI)
      fix dg assume "e = Some dg"
      with e1 obtain err where p: "0 < n" "\<not> IsNotFound err"
        "DeleteRouteSettings conn ((log @ [?f v]) @ map ?f (take (n - 1) vs))
                         apiId (routeKeyOf (vs ! (n - 1))) stageName = Some err"
        "dg = ErrDeletingRouteSettings stageName (routeKeyOf (vs ! (n - 1))) err"
        by blast
      from p(1) obtain m where m: "n = Suc m" by (cases n) auto
      show "0 < Suc n
               \<and> (\<exists>err. \<not> IsNotFound err
                    \<and> DeleteRouteSettings conn (log @ map ?f (take (Suc n - 1) (v # vs)))
                         apiId (routeKeyOf ((v # vs) ! (Suc n - 1))) stageName = Some err
                    \<and> dg = ErrDeletingRouteSettings stageName
                            (routeKeyOf ((v # vs) ! (Suc n - 1))) err)"
        using p(2,3,4) by (auto simp: m)
    qed
    have c: "\<forall>i. i < Suc n \<and> (e \<noteq> None \<longrightarrow> Suc i < Suc n) \<longrightarrow>
               (case DeleteRouteSettings conn (log @ map ?f (take i (v # vs)))
                       apiId (routeKeyOf ((v # vs) ! i)) stageName of
                  None \<Rightarrow> True | Some er \<Rightarrow> IsNotFound er)"
    proof (intro allI impI)
      fix i assume i: "i < Suc n \<and> (e \<noteq> None \<longrightarrow> Suc i < Suc n)"
      show "case DeleteRouteSettings conn (log @ map ?f (take i (v # vs)))
                       apiId (routeKeyOf ((v # vs) ! i)) stageName of
                  None \<Rightarrow> True | Some er \<Rightarrow> IsNotFound er"
      proof (cases i)
        case 0
        then show ?thesis using False by (auto simp: rk split: option.splits)
      next
        case (Suc j)
        with i have "j < n \<and> (e \<noteq> None \<longrightarrow> Suc j < n)" by simp
        with e2 have "case DeleteRouteSettings conn ((log @ [?f v]) @ map ?f (take j vs))
                       apiId (routeKeyOf (vs ! j)) stageName of
                  None \<Rightarrow> True | Some er \<Rightarrow> IsNotFound er" by blast
        then show ?thesis by (simp add: Suc)
      qed
    qed
    from n a e0 b c show ?thesis
      by (intro exI [of _ "Suc n"] exI [of _ e]) simp
  qed
qed

lemma fixture_route_eq:
  "(fixture_route k dm = fixture_route k' dm') = (k = k' \<and> dm = dm')"
proof
  assume e: "fixture_route k dm = fixture_route k' dm'"
  from fun_cong [OF e, of "''route_key''"] have "k = k'" by simp
  moreover from fun_cong [OF e, of "''detailed_metrics_enabled''"] have "dm = dm'" by simp
  ultimately show "k = k' \<and> dm = dm'" by simp
qed simp

text \<open>
  C1 (amended). When the route settings changed and every element of the old and of the
  new set holds a string route key, the route-settings branch of Update issues its
  deletes for the elements of the old set that are not elements of the new set (an
  element is a route key with all of its settings), in the order of the old set, each for
  that element's route key. It stops at the first delete that fails with an error other
  than not-found: it then returns the delete error for that key, having issued the
  deletes up to that one, and leaves the request as it was. Otherwise, and so whenever
  every delete succeeds or reports not-found, it has issued exactly one delete per such
  element and stores the expansion of the whole new set in the request. Every route key
  of the old set that the new set lacks belongs to such an element; a key still present
  whose settings changed does too.
\<close>

theorem route_override_differ:
  assumes "set (route_settings (d_old d)) \<noteq> set (route_settings (d_new d))"
    and "\<forall>v \<in> set (route_settings (d_old d)) \<union> set (route_settings (d_new d)).
           asString (v ''route_key'') \<noteq> None"
  shows "\<exists>settings n e req'.
           expandRouteSettings (route_settings (d_new d)) protocolType = Some settings
         \<and> n \<le> length (filter (\<lambda>v. v \<notin> set (route_settings (d_new d)))
                          (route_settings (d_old d)))
         \<and> updateRouteSettings conn d protocolType req log =
             Some (e, req',
                   log @ map (\<lambda>v. DeleteRouteSettingsCall (api_id (d_new d)) (routeKeyOf v) (d_Id d))
                          (take n (filter (\<lambda>v. v \<notin> set (route_settings (d_new d)))
                                    (route_settings (d_old d)))))
         \<and> (e = None \<longrightarrow>
               n = length (filter (\<lambda>v. v \<notin> set (route_settings (d_new d)))
                            (route_settings (d_old d)))
               \<and> req' = req\<lparr>us_RouteSettings := Some settings\<rparr>)
         \<and> (\<forall>dg. e = Some dg \<longrightarrow>
               req' = req \<and> 0 < n
               \<and> (\<exists>err. \<not> IsNotFound err
                    \<and> DeleteRouteSettings conn
                         (log @ map (\<lambda>v. DeleteRouteSettingsCall (api_id (d_new d)) (routeKeyOf v)
                                           (d_Id d))
                                  (take (n - 1) (filter (\<lambda>v. v \<notin> set (route_settings (d_new d)))
                                                   (route_settings (d_old d)))))
                         (api_id (d_new d))
                         (routeKeyOf (filter (\<lambda>v. v \<notin> set (route_settings (d_new d)))
                                        (route_settings (d_old d)) ! (n - 1)))
                         (d_Id d) = Some err
                    \<and> dg = ErrDeletingRouteSettings (d_Id d)
                           (routeKeyOf (filter (\<lambda>v. v \<notin> set (route_settings (d_new d)))
                                          (route_settings (d_old d)) ! (n - 1))) err))
         \<and> (\<forall>i. i < n \<and> (e \<noteq> None \<longrightarrow> Suc i < n) \<longrightarrow>
               (case DeleteRouteSettings conn
                       (log @ map (\<lambda>v. DeleteRouteSettingsCall (api_id (d_new d)) (routeKeyOf v)
                                         (d_Id d))
                                (take i (filter (\<lambda>v. v \<notin> set (route_settings (d_new d)))
                                           (route_settings (d_old d)))))
                       (api_id (d_new d))
                       (routeKeyOf (filter (\<lambda>v. v \<notin> set (route_settings (d_new d)))
                                      (route_settings (d_old d)) ! i))
                       (d_Id d) of
                  None \<Rightarrow> True | Some er \<Rightarrow> IsNotFound er))
         \<and> ((\<forall>l k. case DeleteRouteSettings conn l (api_id (d_new d)) k (d_Id d) of
                      None \<Rightarrow> True | Some er \<Rightarrow> IsNotFound er) \<longrightarrow> e = None)
         \<and> routeKeyOf ` set (route_settings (d_old d)) - routeKeyOf ` set (route_settings (d_new d))
             \<subseteq> routeKeyOf ` set (filter (\<lambda>v. v \<notin> set (route_settings (d_new d)))
                                   (route_settings (d_old d)))"
proof -
  let ?os = "route_settings (d_old d)" and ?ns = "route_settings (d_new d)"
  let ?ds = "filter (\<lambda>v. v \<notin> set ?ns) ?os"
  let ?f = "\<lambda>v. DeleteRouteSettingsCall (api_id (d_new d)) (routeKeyOf v) (d_Id d)"
  have "\<forall>v \<in> set ?ns. asString (v ''route_key'') \<noteq> None" using assms(2) by auto
  from expandRouteSettings_loop_result [OF this, of protocolType Map.empty]
  obtain settings where s: "expandRouteSettings ?ns protocolType = Some settings"
    by (auto simp: expandRouteSettings_def)
  have "\<forall>v \<in> set ?ds. asString (v ''route_key'') \<noteq> None"
    using assms(2) by auto
  from deleteRouteSettings_loop_prefix [OF this, of conn "api_id (d_new d)" "d_Id d" log]
  obtain n e where n: "n \<le> length ?ds"
    and l: "deleteRouteSettings_loop conn (api_id (d_new d)) (d_Id d) ?ds log =
              Some (e, log @ map ?f (take n ?ds))"
    and e0: "e = None \<longrightarrow> n = length ?ds"
    and e1: "\<forall>dg. e = Some dg \<longrightarrow>
               0 < n
               \<and> (\<exists>err. \<not> IsNotFound err
                    \<and> DeleteRouteSettings conn (log @ map ?f (take (n - 1) ?ds))
                         (api_id (d_new d)) (routeKeyOf (?ds ! (n - 1))) (d_Id d) = Some err
                    \<and> dg = ErrDeletingRouteSettings (d_Id d) (routeKeyOf (?ds ! (n - 1))) err)"
    and e2: "\<forall>i. i < n \<and> (e \<noteq> None \<longrightarrow> Suc i < n) \<longrightarrow>
               (case DeleteRouteSettings conn (log @ map ?f (take i ?ds))
                       (api_id (d_new d)) (routeKeyOf (?ds ! i)) (d_Id d) of
                  None \<Rightarrow> True | Some er \<Rightarrow> IsNotFound er)"
    by (elim exE conjE) (rule that; assumption)
  define req' where "req' = (if e = None then req\<lparr>us_RouteSettings := Some settings\<rparr> else req)"
  have u: "updateRouteSettings conn d protocolType req log =
             Some (e, req', log @ map ?f (take n ?ds))"
    using assms(1) s l
    by (cases e) (simp_all add: updateRouteSettings_def Let_def Difference_def req'_def)
  have r0: "e = None \<longrightarrow> n = length ?ds \<and> req' = req\<lparr>us_RouteSettings := Some settings\<rparr>"
    using e0 by (simp add: req'_def)
  have r1: "\<forall>dg. e = Some dg \<longrightarrow>
               req' = req \<and> 0 < n
               \<and> (\<exists>err. \<not> IsNotFound err
                    \<and> DeleteRouteSettings conn (log @ map ?f (take (n - 1) ?ds))
                         (api_id (d_new d)) (routeKeyOf (?ds ! (n - 1))) (d_Id d) = Some err
                    \<and> dg = ErrDeletingRouteSettings (d_Id d) (routeKeyOf (?ds ! (n - 1))) err)"
    using e1 by (simp add: req'_def)
  have ok: "(\<forall>l k. case DeleteRouteSettings conn l (api_id (d_new d)) k (d_Id d) of
                      None \<Rightarrow> True | Some er \<Rightarrow> IsNotFound er) \<longrightarrow> e = None"
  proof
    assume a: "\<forall>l k. case DeleteRouteSettings conn l (api_id (d_new d)) k (d_Id d) of
                      None \<Rightarrow> True | Some er \<Rightarrow> IsNotFound er"
    show "e = None"
    proof (cases e)
      case None then show ?thesis .
    next
      case (Some dg)
      with e1 obtain err where "\<not> IsNotFound err"
        "DeleteRouteSettings conn (log @ map ?f (take (n - 1) ?ds))
                         (api_id (d_new d)) (routeKeyOf (?ds ! (n - 1))) (d_Id d) = Some err"
        by blast
      with a [rule_format, of "log @ map ?f (take (n - 1) ?ds)" "routeKeyOf (?ds ! (n - 1))"]
      show ?thesis by simp
    qed
  qed
  have sub: "routeKeyOf ` set ?os - routeKeyOf ` set ?ns \<subseteq> routeKeyOf ` set ?ds"
    by auto
  show ?thesis
    by (intro exI [of _ settings] exI [of _ n] exI [of _ e] exI [of _ req'] conjI)
       (rule s n u r0 r1 e2 ok sub)+
qed

text \<open>After such a delete error Update returns it at once: no \<open>UpdateStage\<close> call and
  no Read follow.\<close>

lemma update_stops_at_delete_error:
  assumes "HasChanges d"
    and "GetApi conn log (api_id (d_new d)) = Inr apiOutput"
    and "updateRouteSettings conn d (ProtocolType apiOutput)
           (updateStageInput d (ProtocolType apiOutput)) (log @ [GetApiCall (api_id (d_new d))])
         = Some (Some e, req', log')"
  shows "resourceStageUpdate conn meta d log = Some ([e], d, log')"
  using assms by (simp add: resourceStageUpdate_def Let_def)

theorem route_override_differ_witness:
  "(\<exists>settings.
     expandRouteSettings [fixture_route ''B'' False, fixture_route ''C'' True] ProtocolTypeHttp
       = Some settings
   \<and> updateRouteSettings
       (fixture_client (Inr \<lparr>ProtocolType = ''HTTP''\<rparr>) (Inr (fixture_stage ''prod'')) None)
       (fixture_routes [fixture_route ''A'' True, fixture_route ''B'' False]
                       [fixture_route ''B'' False, fixture_route ''C'' True])
       ProtocolTypeHttp
       (updateStageInput
          (fixture_routes [fixture_route ''A'' True, fixture_route ''B'' False]
                          [fixture_route ''B'' False, fixture_route ''C'' True])
          ProtocolTypeHttp)
       []
     = Some (None,
         (updateStageInput
            (fixture_routes [fixture_route ''A'' True, fixture_route ''B'' False]
                            [fixture_route ''B'' False, fixture_route ''C'' True])
            ProtocolTypeHttp)\<lparr>us_RouteSettings := Some settings\<rparr>,
         [DeleteRouteSettingsCall ''abc123'' ''A'' ''prod''])
   \<and> dom settings = {''B'', ''C''})
   \<and> updateRouteSettings
       (fixture_client (Inr \<lparr>ProtocolType = ''HTTP''\<rparr>) (Inr (fixture_stage ''prod''))
          (Some (OtherError ''timeout'')))
       (fixture_routes [fixture_route ''A'' True, fixture_route ''B'' False]
                       [fixture_route ''C'' True])
       ProtocolTypeHttp
       (updateStageInput
          (fixture_routes [fixture_route ''A'' True, fixture_route ''B'' False]
                          [fixture_route ''C'' True])
          ProtocolTypeHttp)
       []
     = Some (Some (ErrDeletingRouteSettings ''prod'' ''A'' (OtherError ''timeout'')),
         updateStageInput
            (fixture_routes [fixture_route ''A'' True, fixture_route ''B'' False]
                            [fixture_route ''C'' True])
            ProtocolTypeHttp,
         [DeleteRouteSettingsCall ''abc123'' ''A'' ''prod''])"
proof -
  let ?d = "fixture_routes [fixture_route ''A'' True, fixture_route ''B'' False]
                           [fixture_route ''B'' False, fixture_route ''C'' True]"
  let ?c = "fixture_client (Inr \<lparr>ProtocolType = ''HTTP''\<rparr>) (Inr (fixture_stage ''prod'')) None"
  let ?req = "updateStageInput ?d ProtocolTypeHttp"
  have "fixture_route ''A'' True \<in> set (route_settings (d_old ?d))" by simp
  moreover have "fixture_route ''A'' True \<notin> set (route_settings (d_new ?d))"
    by (simp add: fixture_route_eq)
  ultimately have h1: "set (route_settings (d_old ?d)) \<noteq> set (route_settings (d_new ?d))"
    by blast
  have h2: "\<forall>v \<in> set (route_settings (d_old ?d)) \<union> set (route_settings (d_new ?d)).
           asString (v ''route_key'') \<noteq> None" by simp
  have h3: "\<forall>l k. case DeleteRouteSettings ?c l (api_id (d_new ?d)) k (d_Id ?d) of
                  None \<Rightarrow> True | Some e \<Rightarrow> IsNotFound e" by simp
  have f: "filter (\<lambda>v. v \<notin> set (route_settings (d_new ?d))) (route_settings (d_old ?d))
             = [fixture_route ''A'' True]"
    by (simp add: fixture_route_eq)
  from route_override_differ [OF h1 h2, of ProtocolTypeHttp ?c ?req "[]"]
  obtain settings n e req' where
    s: "expandRouteSettings (route_settings (d_new ?d)) ProtocolTypeHttp = Some settings"
    and u: "updateRouteSettings ?c ?d ProtocolTypeHttp ?req [] =
             Some (e, req',
                   [] @ map (\<lambda>v. DeleteRouteSettingsCall (api_id (d_new ?d)) (routeKeyOf v) (d_Id ?d))
                          (take n (filter (\<lambda>v. v \<notin> set (route_settings (d_new ?d)))
                             (route_settings (d_old ?d)))))"
    and e0: "e = None \<longrightarrow>
               n = length (filter (\<lambda>v. v \<notin> set (route_settings (d_new ?d)))
                            (route_settings (d_old ?d)))
               \<and> req' = ?req\<lparr>us_RouteSettings := Some settings\<rparr>"
    and ok: "(\<forall>l k. case DeleteRouteSettings ?c l (api_id (d_new ?d)) k (d_Id ?d) of
                      None \<Rightarrow> True | Some er \<Rightarrow> IsNotFound er) \<longrightarrow> e = None"
    by (elim exE conjE) (rule that; assumption)
  from ok h3 have e: "e = None" by (rule mp)
  from e0 e have nr: "n = length (filter (\<lambda>v. v \<notin> set (route_settings (d_new ?d)))
                            (route_settings (d_old ?d)))
               \<and> req' = ?req\<lparr>us_RouteSettings := Some settings\<rparr>" by (rule mp)
  from nr have n: "n = length (filter (\<lambda>v. v \<notin> set (route_settings (d_new ?d)))
                            (route_settings (d_old ?d)))" by (rule conjunct1)
  from nr have r: "req' = ?req\<lparr>us_RouteSettings := Some settings\<rparr>" by (rule conjunct2)
  have u': "updateRouteSettings ?c ?d ProtocolTypeHttp ?req [] =
             Some (None, ?req\<lparr>us_RouteSettings := Some settings\<rparr>,
                   [DeleteRouteSettingsCall ''abc123'' ''A'' ''prod''])"
    using u unfolding e r n f by (simp add: routeKeyOf_def)
  have s': "expandRouteSettings [fixture_route ''B'' False, fixture_route ''C'' True] ProtocolTypeHttp
       = Some settings"
    using s by simp
  have dm: "dom settings = {''B'', ''C''}"
    using s by (auto simp: expandRouteSettings_def split: if_splits)
  have first: "\<exists>settings.
     expandRouteSettings [fixture_route ''B'' False, fixture_route ''C'' True] ProtocolTypeHttp
       = Some settings
   \<and> updateRouteSettings ?c ?d ProtocolTypeHttp ?req []
     = Some (None, ?req\<lparr>us_RouteSettings := Some settings\<rparr>,
         [DeleteRouteSettingsCall ''abc123'' ''A'' ''prod''])
   \<and> dom settings = {''B'', ''C''}"
    using s' u' dm by (intro exI [of _ settings] conjI)
  have n2: "set [fixture_route ''A'' True, fixture_route ''B'' False] \<noteq> set [fixture_route ''C'' True]"
    by (simp add: fixture_route_eq)
  have second: "updateRouteSettings
       (fixture_client (Inr \<lparr>ProtocolType = ''HTTP''\<rparr>) (Inr (fixture_stage ''prod''))
          (Some (OtherError ''timeout'')))
       (fixture_routes [fixture_route ''A'' True, fixture_route ''B'' False]
                       [fixture_route ''C'' True])
       ProtocolTypeHttp
       (updateStageInput
          (fixture_routes [fixture_route ''A'' True, fixture_route ''B'' False]
                          [fixture_route ''C'' True])
          ProtocolTypeHttp)
       []
     = Some (Some (ErrDeletingRouteSettings ''prod'' ''A'' (OtherError ''timeout'')),
         updateStageInput
            (fixture_routes [fixture_route ''A'' True, fixture_route ''B'' False]
                            [fixture_route ''C'' True])
            ProtocolTypeHttp,
         [DeleteRouteSettingsCall ''abc123'' ''A'' ''prod''])"
    using n2
    by (simp add: updateRouteSettings_def Difference_def Let_def fixture_route_eq)
  from first second show ?thesis by (rule conjI)
qed

text \<open>
  C1 as stated fails: with the old set \<open>{A: detailed metrics off}\<close> and the new set
  \<open>{A: detailed metrics on}\<close> the key \<open>A\<close> is still present, and a delete is issued
  for it.
\<close>

theorem route_override_differ_counterexample:
  "map_option (\<lambda>r. (fst r, snd (snd r)))
     (updateRouteSettings
        (fixture_client (Inr \<lparr>ProtocolType = ''HTTP''\<rparr>) (Inr (fixture_stage ''prod'')) None)
        (fixture_routes [fixture_route ''A'' False] [fixture_route ''A'' True])
        ProtocolTypeHttp
        (updateStageInput (fixture_routes [fixture_route ''A'' False] [fixture_route ''A'' True])
           ProtocolTypeHttp)
        [])
     = Some (None, [DeleteRouteSettingsCall ''abc123'' ''A'' ''prod''])
   \<and> asString (fixture_route ''A'' False ''route_key'') = Some ''A''
   \<and> asString (fixture_route ''A'' True ''route_key'') = Some ''A''"
proof -
  have n: "set [fixture_route ''A'' False] \<noteq> set [fixture_route ''A'' True]"
    by (simp add: fixture_route_eq)
  show ?thesis
    using n
    by (simp add: updateRouteSettings_def Difference_def Let_def fixture_route_eq
          expandRouteSettings_def)
qed

subsection \<open>The variable-map differ\<close>

lemma mergeVariables_at:
  "mergeVariables add del k =
     (case add k of Some v \<Rightarrow> Some v | None \<Rightarrow> if k \<in> dom del then Some [] else None)"
  by (simp add: mergeVariables_def map_add_def split: option.splits)

text \<open>
  C3. The merge of the two loops gives, at every key, the value of \<open>add\<close> where \<open>add\<close>
  holds the key, and otherwise the empty string where \<open>del\<close> holds it: an added value is
  never shadowed by a deletion marker. With the differ of the specification, the
  variables of the request are, for changed maps, the map that sends every added or
  changed key to its new value and every key of the old map that the new map lacks to the
  empty string, and holds no other key.
\<close>

theorem variable_map_differ:
  "(\<forall>add del k. mergeVariables add del k =
       (case add k of Some v \<Rightarrow> Some v | None \<Rightarrow> if k \<in> dom del then Some [] else None))
   \<and> us_StageVariables (updateStageVariables d req) =
       (if stage_variables (d_old d) \<noteq> stage_variables (d_new d)
        then Some (\<lambda>k. case stage_variables (d_new d) k of
                          Some v \<Rightarrow> if stage_variables (d_old d) k = Some v then None else Some v
                        | None \<Rightarrow> if k \<in> dom (stage_variables (d_old d)) then Some [] else None)
        else us_StageVariables req)"
proof -
  have "mergeVariables
          (\<lambda>k. case n k of None \<Rightarrow> None | Some v \<Rightarrow> if oldm k = Some v then None else Some v)
          (\<lambda>k. case oldm k of None \<Rightarrow> None | Some v \<Rightarrow> if n k = None then Some v else None)
        = (\<lambda>k. case n k of
                  Some v \<Rightarrow> if oldm k = Some v then None else Some v
                | None \<Rightarrow> if k \<in> dom oldm then Some [] else None)"
    for oldm n :: "string \<rightharpoonup> string"
    by (rule ext) (auto simp: mergeVariables_at dom_def split: option.splits)
  then show ?thesis
    by (simp add: mergeVariables_at updateStageVariables_def DiffStringValueMaps_def)
qed

theorem variable_map_differ_witness:
  "us_StageVariables
     (updateStageVariables
        (fixture_variables [''a'' \<mapsto> ''1'', ''b'' \<mapsto> ''2''] [''b'' \<mapsto> ''3'', ''c'' \<mapsto> ''4''])
        (updateStageInput
           (fixture_variables [''a'' \<mapsto> ''1'', ''b'' \<mapsto> ''2''] [''b'' \<mapsto> ''3'', ''c'' \<mapsto> ''4''])
           ProtocolTypeHttp))
   = Some [''a'' \<mapsto> [], ''b'' \<mapsto> ''3'', ''c'' \<mapsto> ''4'']"
proof -
  let ?o = "[''a'' \<mapsto> ''1'', ''b'' \<mapsto> ''2''] :: string \<rightharpoonup> string"
  let ?n = "[''b'' \<mapsto> ''3'', ''c'' \<mapsto> ''4''] :: string \<rightharpoonup> string"
  have ne: "?o \<noteq> ?n" by (rule map_neq_at [of _ "''a''"]) simp
  have m: "(\<lambda>k. case ?n k of
                  Some v \<Rightarrow> if ?o k = Some v then None else Some v
                | None \<Rightarrow> if k \<in> dom ?o then Some [] else None)
           = [''a'' \<mapsto> [], ''b'' \<mapsto> ''3'', ''c'' \<mapsto> ''4'']"
    by (rule ext) auto
  have so: "stage_variables (d_old (fixture_variables ?o ?n)) = ?o"
    and sn: "stage_variables (d_new (fixture_variables ?o ?n)) = ?n"
    by simp_all
  note t = conjunct2 [OF variable_map_differ [of "fixture_variables ?o ?n"
         "updateStageInput (fixture_variables ?o ?n) ProtocolTypeHttp"]]
  have "us_StageVariables
     (updateStageVariables (fixture_variables ?o ?n)
        (updateStageInput (fixture_variables ?o ?n) ProtocolTypeHttp))
     = (if ?o \<noteq> ?n
        then Some (\<lambda>k. case ?n k of
                  Some v \<Rightarrow> if ?o k = Some v then None else Some v
                | None \<Rightarrow> if k \<in> dom ?o then Some [] else None)
        else us_StageVariables (updateStageInput (fixture_variables ?o ?n) ProtocolTypeHttp))"
    using t by (simp only: so sn)
  also have "\<dots> = Some [''a'' \<mapsto> [], ''b'' \<mapsto> ''3'', ''c'' \<mapsto> ''4'']"
    by (simp only: ne m not_False_eq_True if_True)
  finally show ?thesis .
qed

subsection \<open>Update without a change\<close>

lemma read_log:
  "snd (snd (resourceStageRead conn meta d log)) = log @ [GetStageCall (api_id (d_new d)) (d_Id d)]
   \<or> snd (snd (resourceStageRead conn meta d log)) =
       log @ [GetStageCall (api_id (d_new d)) (d_Id d), GetApiCall (api_id (d_new d))]"
  by (simp add: resourceStageRead_def Let_def split: sum.splits)

text \<open>
  C6. When no field of the allow-list changed, Update is exactly one Read on the same
  data and log: the calls it adds to the log are the \<open>GetStage\<close> of Read, followed by the
  \<open>GetApi\<close> of Read when the stage was fetched; no \<open>UpdateStage\<close>, no
  \<open>DeleteRouteSettings\<close>, and no \<open>GetApi\<close> before the \<open>GetStage\<close>.
\<close>

theorem update_noop:
  assumes "\<not> HasChanges d"
  shows "resourceStageUpdate conn meta d log = Some (resourceStageRead conn meta d log)
       \<and> (snd (snd (resourceStageRead conn meta d log))
              = log @ [GetStageCall (api_id (d_new d)) (d_Id d)]
          \<or> snd (snd (resourceStageRead conn meta d log))
              = log @ [GetStageCall (api_id (d_new d)) (d_Id d), GetApiCall (api_id (d_new d))])"
  using assms read_log [of conn meta d log] by (simp add: resourceStageUpdate_def)

theorem update_noop_witness:
  "map_option (\<lambda>r. (fst r, snd (snd r)))
     (resourceStageUpdate
        (fixture_client (Inr \<lparr>ProtocolType = ''HTTP''\<rparr>) (Inr (fixture_stage ''prod'')) None)
        fixture_meta fixture_data [])
   = Some ([], [GetStageCall ''abc123'' ''prod'', GetApiCall ''abc123''])"
proof -
  have h: "\<not> HasChanges fixture_data" by (simp add: HasChanges_def)
  from update_noop [OF h,
      of "fixture_client (Inr \<lparr>ProtocolType = ''HTTP''\<rparr>) (Inr (fixture_stage ''prod'')) None"
         fixture_meta "[]"]
  show ?thesis
    by (simp add: resourceStageRead_def Let_def ProtocolTypeWebsocket_def ProtocolTypeHttp_def)
qed

subsection \<open>Read\<close>

text \<open>
  C7. When the fetch of the stage fails: on not-found for a resource that is not new,
  Read empties the identifier and returns no diagnostic; on every other failure (not-found
  for a new resource included) it returns the read error and leaves the resource data
  unchanged.
\<close>

theorem read_notFound:
  assumes "GetStage conn log (api_id (d_new d)) (d_Id d) = Inl err"
  shows "resourceStageRead conn meta d log =
           (if IsNotFound err \<and> \<not> d_IsNewResource d
            then ([], d\<lparr>d_Id := []\<rparr>, log @ [GetStageCall (api_id (d_new d)) (d_Id d)])
            else ([ErrReadingStage (d_Id d) err], d,
                  log @ [GetStageCall (api_id (d_new d)) (d_Id d)]))"
  using assms by (simp add: resourceStageRead_def Let_def)

theorem read_notFound_witness:
  "resourceStageRead
      (fixture_client (Inr \<lparr>ProtocolType = ''HTTP''\<rparr>) (Inl (NotFoundException ''no such stage'')) None)
      fixture_meta fixture_data []
     = ([], fixture_data\<lparr>d_Id := []\<rparr>, [GetStageCall ''abc123'' ''prod''])
   \<and> resourceStageRead
      (fixture_client (Inr \<lparr>ProtocolType = ''HTTP''\<rparr>) (Inl (OtherError ''timeout'')) None)
      fixture_meta fixture_data []
     = ([ErrReadingStage ''prod'' (OtherError ''timeout'')], fixture_data,
        [GetStageCall ''abc123'' ''prod''])
   \<and> resourceStageRead
      (fixture_client (Inr \<lparr>ProtocolType = ''HTTP''\<rparr>) (Inl (NotFoundException ''no such stage'')) None)
      fixture_meta (fixture_data\<lparr>d_IsNewResource := True\<rparr>) []
     = ([ErrReadingStage ''prod'' (NotFoundException ''no such stage'')],
        fixture_data\<lparr>d_IsNewResource := True\<rparr>, [GetStageCall ''abc123'' ''prod''])"
  using
    read_notFound [of "fixture_client (Inr \<lparr>ProtocolType = ''HTTP''\<rparr>) (Inl (NotFoundException ''no such stage'')) None"
       "[]" fixture_data "NotFoundException ''no such stage''" fixture_meta]
    read_notFound [of "fixture_client (Inr \<lparr>ProtocolType = ''HTTP''\<rparr>) (Inl (OtherError ''timeout'')) None"
       "[]" fixture_data "OtherError ''timeout''" fixture_meta]
    read_notFound [of "fixture_client (Inr \<lparr>ProtocolType = ''HTTP''\<rparr>) (Inl (NotFoundException ''no such stage'')) None"
       "[]" "fixture_data\<lparr>d_IsNewResource := True\<rparr>" "NotFoundException ''no such stage''" fixture_meta]
  by simp

text \<open>
  C8. When both fetches of Read succeed, Read returns no diagnostic, and the invoke URL
  is \<open>wss://<apiId>.execute-api.<region>.amazonaws.com/<stageName>\<close> for a \<open>WEBSOCKET\<close>
  API; for an \<open>HTTP\<close> API it is \<open>https://<apiId>.execute-api.<region>.amazonaws.com/\<close>
  when the stage name is \<open>$default\<close>, and the same followed by the stage name otherwise.
\<close>

theorem read_invoke_url:
  assumes "GetStage conn log (api_id (d_new d)) (d_Id d) = Inr resp"
    and "GetApi conn (log @ [GetStageCall (api_id (d_new d)) (d_Id d)]) (api_id (d_new d))
           = Inr apiOutput"
  shows "fst (resourceStageRead conn meta d log) = []
       \<and> (ProtocolType apiOutput = ProtocolTypeWebsocket \<longrightarrow>
            invoke_url (d_new (fst (snd (resourceStageRead conn meta d log))))
              = ''wss://'' @ api_id (d_new d) @ ''.execute-api.'' @ Region meta
                  @ ''.amazonaws.com/'' @ ToString (gs_StageName resp))
       \<and> (ProtocolType apiOutput = ProtocolTypeHttp \<longrightarrow>
            invoke_url (d_new (fst (snd (resourceStageRead conn meta d log))))
              = (if ToString (gs_StageName resp) = defaultStageName
                 then ''https://'' @ api_id (d_new d) @ ''.execute-api.'' @ Region meta
                        @ ''.amazonaws.com/''
                 else ''https://'' @ api_id (d_new d) @ ''.execute-api.'' @ Region meta
                        @ ''.amazonaws.com/'' @ ToString (gs_StageName resp)))"
  using assms
  by (simp add: resourceStageRead_def Let_def ProtocolTypeWebsocket_def ProtocolTypeHttp_def)

theorem read_invoke_url_witness:
  "invoke_url (d_new (fst (snd (resourceStageRead
      (fixture_client (Inr \<lparr>ProtocolType = ''WEBSOCKET''\<rparr>) (Inr (fixture_stage ''prod'')) None)
      fixture_meta fixture_data []))))
     = ''wss://abc123.execute-api.us-east-1.amazonaws.com/prod''
   \<and> invoke_url (d_new (fst (snd (resourceStageRead
      (fixture_client (Inr \<lparr>ProtocolType = ''HTTP''\<rparr>) (Inr (fixture_stage ''$default'')) None)
      fixture_meta (fixture_data\<lparr>d_Id := ''$default''\<rparr>) []))))
     = ''https://abc123.execute-api.us-east-1.amazonaws.com/''
   \<and> invoke_url (d_new (fst (snd (resourceStageRead
      (fixture_client (Inr \<lparr>ProtocolType = ''HTTP''\<rparr>) (Inr (fixture_stage ''prod'')) None)
      fixture_meta fixture_data []))))
     = ''https://abc123.execute-api.us-east-1.amazonaws.com/prod''"
  using
    read_invoke_url [of "fixture_client (Inr \<lparr>ProtocolType = ''WEBSOCKET''\<rparr>) (Inr (fixture_stage ''prod'')) None"
      "[]" fixture_data "fixture_stage ''prod''" "\<lparr>ProtocolType = ''WEBSOCKET''\<rparr>" fixture_meta]
    read_invoke_url [of "fixture_client (Inr \<lparr>ProtocolType = ''HTTP''\<rparr>) (Inr (fixture_stage ''$default'')) None"
      "[]" "fixture_data\<lparr>d_Id := ''$default''\<rparr>" "fixture_stage ''$default''" "\<lparr>ProtocolType = ''HTTP''\<rparr>" fixture_meta]
    read_invoke_url [of "fixture_client (Inr \<lparr>ProtocolType = ''HTTP''\<rparr>) (Inr (fixture_stage ''prod'')) None"
      "[]" fixture_data "fixture_stage ''prod''" "\<lparr>ProtocolType = ''HTTP''\<rparr>" fixture_meta]
  by (simp add: ProtocolTypeWebsocket_def ProtocolTypeHttp_def defaultStageName_def ToString_def)

subsection \<open>Delete\<close>

text \<open>
  C9. Delete makes one \<open>DeleteStage\<close> call; it returns no diagnostic when the call
  succeeds or reports not-found, and the delete error on any other failure.
\<close>

theorem delete_notFound:
  "resourceStageDelete conn d log =
     ((case DeleteStage conn log (api_id (d_new d)) (d_Id d) of
         None \<Rightarrow> []
       | Some err \<Rightarrow> if IsNotFound err then [] else [ErrDeletingStage (d_Id d) err]),
      d, log @ [DeleteStageCall (api_id (d_new d)) (d_Id d)])"
  by (simp add: resourceStageDelete_def Let_def split: option.splits)

theorem delete_notFound_witness:
  "resourceStageDelete
      (fixture_client (Inr \<lparr>ProtocolType = ''HTTP''\<rparr>) (Inr (fixture_stage ''prod''))
         (Some (NotFoundException ''no such stage'')))
      fixture_data []
     = ([], fixture_data, [DeleteStageCall ''abc123'' ''prod''])
   \<and> resourceStageDelete
      (fixture_client (Inr \<lparr>ProtocolType = ''HTTP''\<rparr>) (Inr (fixture_stage ''prod''))
         (Some (OtherError ''timeout'')))
      fixture_data []
     = ([ErrDeletingStage ''prod'' (OtherError ''timeout'')], fixture_data,
        [DeleteStageCall ''abc123'' ''prod''])"
  using
    delete_notFound [of "fixture_client (Inr \<lparr>ProtocolType = ''HTTP''\<rparr>) (Inr (fixture_stage ''prod''))
         (Some (NotFoundException ''no such stage''))" fixture_data "[]"]
    delete_notFound [of "fixture_client (Inr \<lparr>ProtocolType = ''HTTP''\<rparr>) (Inr (fixture_stage ''prod''))
         (Some (OtherError ''timeout''))" fixture_data "[]"]
  by simp

subsection \<open>Import\<close>

lemma length_strings_Split: "length (strings_Split s sep) = Suc (count_list s sep)"
  by (induction s) (auto split: list.splits)

lemma strings_Split_two:
  "sep \<notin> set a \<Longrightarrow> sep \<notin> set b \<Longrightarrow> strings_Split (a @ sep # b) sep = [a, b]"
proof (induction a)
  case Nil
  have "strings_Split b sep = [b]" using Nil(2)
    by (induction b) (auto split: list.splits)
  then show ?case by simp
next
  case (Cons c a)
  then show ?case by auto
qed

text \<open>
  C4 (amended). Import fails with the wrong-format error exactly when the identifier
  does not hold exactly one \<open>/\<close>, and then makes no remote call. For an identifier
  \<open>a/b\<close> with no \<open>/\<close> in \<open>a\<close> or \<open>b\<close> it fetches the stage \<open>b\<close> of the API \<open>a\<close>, fails
  when the fetch fails or the stage was quick-created, and otherwise returns the resource
  with identifier \<open>b\<close> and API \<open>a\<close>. The parts are not required to be non-empty.
\<close>

theorem import_format:
  "(snd (fst (resourceStageImport conn d log)) = Some (ErrWrongFormat (d_Id d)))
     = (count_list (d_Id d) CHR ''/'' \<noteq> 1)
   \<and> (count_list (d_Id d) CHR ''/'' \<noteq> 1 \<longrightarrow>
        resourceStageImport conn d log = (([], Some (ErrWrongFormat (d_Id d))), log))
   \<and> (CHR ''/'' \<notin> set a \<and> CHR ''/'' \<notin> set b \<and> d_Id d = a @ ''/'' @ b \<longrightarrow>
        resourceStageImport conn d log =
          (case GetStage conn log a b of
             Inl err \<Rightarrow> (([], Some (ErrGetStage err)), log @ [GetStageCall a b])
           | Inr resp \<Rightarrow>
               if ToBool (gs_ApiGatewayManaged resp)
               then (([], Some (ErrQuickCreate b)), log @ [GetStageCall a b])
               else (([d\<lparr>d_Id := b, d_new := (d_new d)\<lparr>api_id := a\<rparr>\<rparr>], None),
                     log @ [GetStageCall a b])))"
proof -
  have 1: "(snd (fst (resourceStageImport conn d log)) = Some (ErrWrongFormat (d_Id d)))
     = (count_list (d_Id d) CHR ''/'' \<noteq> 1)"
    by (auto simp: resourceStageImport_def Let_def length_strings_Split split: sum.splits)
  have 2: "resourceStageImport conn d log = (([], Some (ErrWrongFormat (d_Id d))), log)"
    if "count_list (d_Id d) CHR ''/'' \<noteq> 1"
    using that by (simp add: resourceStageImport_def Let_def length_strings_Split)
  have 3: "resourceStageImport conn d log =
          (case GetStage conn log a b of
             Inl err \<Rightarrow> (([], Some (ErrGetStage err)), log @ [GetStageCall a b])
           | Inr resp \<Rightarrow>
               if ToBool (gs_ApiGatewayManaged resp)
               then (([], Some (ErrQuickCreate b)), log @ [GetStageCall a b])
               else (([d\<lparr>d_Id := b, d_new := (d_new d)\<lparr>api_id := a\<rparr>\<rparr>], None),
                     log @ [GetStageCall a b]))"
    if "CHR ''/'' \<notin> set a \<and> CHR ''/'' \<notin> set b \<and> d_Id d = a @ ''/'' @ b"
  proof -
    have "strings_Split (d_Id d) CHR ''/'' = [a, b]"
      using that strings_Split_two [of "CHR ''/''" a b] by simp
    then show ?thesis
      by (simp add: resourceStageImport_def Let_def split: sum.splits)
  qed
  from 1 2 3 show ?thesis by blast
qed

theorem import_format_witness:
  "resourceStageImport
      (fixture_client (Inr \<lparr>ProtocolType = ''HTTP''\<rparr>) (Inr (fixture_stage ''prod'')) None)
      (fixture_data\<lparr>d_Id := ''abc123/prod''\<rparr>) []
     = (([fixture_data\<lparr>d_Id := ''prod'', d_new := fixture_attrs\<lparr>api_id := ''abc123''\<rparr>\<rparr>], None),
        [GetStageCall ''abc123'' ''prod''])
   \<and> resourceStageImport
      (fixture_client (Inr \<lparr>ProtocolType = ''HTTP''\<rparr>) (Inr (fixture_stage ''prod'')) None)
      (fixture_data\<lparr>d_Id := ''abc123''\<rparr>) []
     = (([], Some (ErrWrongFormat ''abc123'')), [])
   \<and> resourceStageImport
      (fixture_client (Inr \<lparr>ProtocolType = ''HTTP''\<rparr>) (Inr (fixture_stage ''prod'')) None)
      (fixture_data\<lparr>d_Id := ''abc123/prod/extra''\<rparr>) []
     = (([], Some (ErrWrongFormat ''abc123/prod/extra'')), [])"
proof -
  let ?c = "fixture_client (Inr \<lparr>ProtocolType = ''HTTP''\<rparr>) (Inr (fixture_stage ''prod'')) None"
  have a: "CHR ''/'' \<notin> set ''abc123'' \<and> CHR ''/'' \<notin> set ''prod''
            \<and> d_Id (fixture_data\<lparr>d_Id := ''abc123/prod''\<rparr>) = ''abc123'' @ ''/'' @ ''prod''"
    by simp
  have b: "count_list (d_Id (fixture_data\<lparr>d_Id := ''abc123''\<rparr>)) CHR ''/'' \<noteq> 1" by simp
  have c: "count_list (d_Id (fixture_data\<lparr>d_Id := ''abc123/prod/extra''\<rparr>)) CHR ''/'' \<noteq> 1"
    by simp
  note t1 = import_format [of ?c "fixture_data\<lparr>d_Id := ''abc123/prod''\<rparr>" "[]" "''abc123''" "''prod''"]
  note t2 = import_format [of ?c "fixture_data\<lparr>d_Id := ''abc123''\<rparr>" "[]"]
  note t3 = import_format [of ?c "fixture_data\<lparr>d_Id := ''abc123/prod/extra''\<rparr>" "[]"]
  have 1: "resourceStageImport ?c (fixture_data\<lparr>d_Id := ''abc123/prod''\<rparr>) []
     = (([fixture_data\<lparr>d_Id := ''prod'', d_new := fixture_attrs\<lparr>api_id := ''abc123''\<rparr>\<rparr>], None),
        [GetStageCall ''abc123'' ''prod''])"
    using t1 a by (simp add: ToBool_def)
  have 2: "resourceStageImport ?c (fixture_data\<lparr>d_Id := ''abc123''\<rparr>) []
     = (([], Some (ErrWrongFormat ''abc123'')), [])"
    using t2 b by simp
  have 3: "resourceStageImport ?c (fixture_data\<lparr>d_Id := ''abc123/prod/extra''\<rparr>) []
     = (([], Some (ErrWrongFormat ''abc123/prod/extra'')), [])"
    using t3 c by simp
  from 1 2 3 show ?thesis by simp
qed

text \<open>
  C4 as stated fails: \<open>/prod\<close> does not split into two non-empty parts, and Import
  does not answer the wrong-format error: it fetches the stage \<open>prod\<close> of the API with the
  empty identifier and succeeds or fails with what the fetch answers.
\<close>

theorem import_format_counterexample:
  "resourceStageImport
      (fixture_client (Inr \<lparr>ProtocolType = ''HTTP''\<rparr>) (Inr (fixture_stage ''prod'')) None)
      (fixture_data\<lparr>d_Id := ''/prod''\<rparr>) []
     = (([fixture_data\<lparr>d_Id := ''prod'', d_new := fixture_attrs\<lparr>api_id := []\<rparr>\<rparr>], None),
        [GetStageCall [] ''prod''])
   \<and> resourceStageImport
      (fixture_client (Inr \<lparr>ProtocolType = ''HTTP''\<rparr>) (Inl (OtherError ''invalid ApiId'')) None)
      (fixture_data\<lparr>d_Id := ''/prod''\<rparr>) []
     = (([], Some (ErrGetStage (OtherError ''invalid ApiId''))), [GetStageCall [] ''prod''])
   \<and> strings_Split ''/prod'' CHR ''/'' = [[], ''prod'']"
  by (simp add: resourceStageImport_def Let_def ToBool_def)

end
